theory Spec2Isabelle
  imports Main
begin

section \<open>Data model\<close>

text \<open>
  Row identifiers are strings generated by the store; they are modelled as natural
  numbers drawn from a counter kept in the store. Timestamps are natural numbers.
  A character of a \<open>string\<close> stands for the code unit of the same number, so the
  strings of the model are the strings whose code units are below 256.
\<close>

type_synonym ident = nat

datatype Role = USER | ADMIN

text \<open>\<^verbatim>\<open>AuthUser\<close> of auth.ts: the identity carried by a session token.\<close>

record AuthUser =
  au_id :: ident
  au_email :: string
  au_displayName :: string
  au_role :: Role

datatype BlockType = TEXT | PHOTO

record user_row =
  u_id :: ident
  u_email :: string
  u_displayName :: string
  u_passwordHash :: string
  u_role :: Role

record tag_row =
  t_id :: ident
  t_name :: string
  t_color :: string

record block_row =
  b_id :: ident
  b_order :: nat
  b_type :: BlockType
  b_text :: "string option"
  b_photoUrl :: "string option"

text \<open>
  A recipe owns its blocks and its tag associations, so both are kept inside the recipe
  row. An association carries nothing but the tag identifier and the associations of a
  recipe are a set: the store refuses to associate a recipe with the same tag twice.
\<close>

record recipe_row =
  r_id :: ident
  r_name :: string
  r_ownerId :: ident
  r_updatedAt :: nat
  r_recipeTags :: "ident list"
  r_blocks :: "block_row list"

text \<open>Every call of the data layer is recorded, in order, in \<open>oplog\<close>.\<close>

datatype dbop =
  UserFindUnique | UserCreate | TagUpsert
  | RecipeFindMany | RecipeFindUnique | RecipeCreate | RecipeUpdate | RecipeDelete

record db =
  users :: "user_row list"
  tags :: "tag_row list"
  recipes :: "recipe_row list"
  nextId :: ident
  oplog :: "dbop list"

datatype dberror = UniqueConstraint | ForeignKeyConstraint | RecordNotFound | InconsistentResult

section \<open>Request payloads and their validation (validators.ts)\<close>

text \<open>
  A request body is a parsed JSON value. The pair list of \<open>JObj\<close> holds the own
  properties of the parsed object; a key that is absent reads as \<^verbatim>\<open>undefined\<close>
  (\<open>None\<close>).
\<close>

datatype json =
  JNull | JBool bool | JNum int | JStr string | JArr "json list" | JObj "(string \<times> json) list"

text \<open>\<^verbatim>\<open>z.string().min(lo).max(hi)\<close>; \<open>hi = None\<close> when no maximum is given.\<close>

fun z_string :: "nat \<Rightarrow> nat option \<Rightarrow> json option \<Rightarrow> string option" where
  "z_string lo hi (Some (JStr s)) =
     (if lo \<le> length s \<and> (case hi of None \<Rightarrow> True | Some h \<Rightarrow> length s \<le> h)
      then Some s else None)"
| "z_string lo hi _ = None"

text \<open>
  \<^verbatim>\<open>z.string().email()\<close>: the pattern an address must match belongs to the validation
  library and is a parameter.
\<close>

fun z_email :: "(string \<Rightarrow> bool) \<Rightarrow> json option \<Rightarrow> string option" where
  "z_email isEmail (Some (JStr s)) = (if isEmail s then Some s else None)"
| "z_email isEmail _ = None"

text \<open>\<^verbatim>\<open>z.array(p)\<close>: every element must parse.\<close>

fun z_array :: "(json \<Rightarrow> 'a option) \<Rightarrow> json \<Rightarrow> 'a list option" where
  "z_array p (JArr xs) = those (map p xs)"
| "z_array p _ = None"

record registerInput =
  ri_email :: string
  ri_displayName :: string
  ri_password :: string

fun registerSchema :: "(string \<Rightarrow> bool) \<Rightarrow> json \<Rightarrow> registerInput option" where
  "registerSchema isEmail (JObj kvs) =
     (case z_email isEmail (map_of kvs ''email'') of
        None \<Rightarrow> None
      | Some e \<Rightarrow>
          (case z_string 1 (Some 50) (map_of kvs ''displayName'') of
             None \<Rightarrow> None
           | Some d \<Rightarrow>
               (case z_string 8 (Some 200) (map_of kvs ''password'') of
                  None \<Rightarrow> None
                | Some p \<Rightarrow>
                    Some \<lparr>ri_email = e, ri_displayName = d, ri_password = p\<rparr>)))"
| "registerSchema isEmail _ = None"

record loginInput =
  li_email :: string
  li_password :: string

fun loginSchema :: "(string \<Rightarrow> bool) \<Rightarrow> json \<Rightarrow> loginInput option" where
  "loginSchema isEmail (JObj kvs) =
     (case z_email isEmail (map_of kvs ''email'') of
        None \<Rightarrow> None
      | Some e \<Rightarrow>
          (case z_string 1 None (map_of kvs ''password'') of
             None \<Rightarrow> None
           | Some p \<Rightarrow> Some \<lparr>li_email = e, li_password = p\<rparr>))"
| "loginSchema isEmail _ = None"

record tagInput =
  ti_id :: "string option"
  ti_name :: string
  ti_color :: string

fun tagInputSchema :: "json \<Rightarrow> tagInput option" where
  "tagInputSchema (JObj kvs) =
     (case (case map_of kvs ''id'' of
              None \<Rightarrow> Some None
            | Some j \<Rightarrow> map_option Some (z_string 1 None (Some j))) of
        None \<Rightarrow> None
      | Some i \<Rightarrow>
          (case z_string 1 (Some 40) (map_of kvs ''name'') of
             None \<Rightarrow> None
           | Some n \<Rightarrow>
               (case z_string 1 (Some 40) (map_of kvs ''color'') of
                  None \<Rightarrow> None
                | Some c \<Rightarrow> Some \<lparr>ti_id = i, ti_name = n, ti_color = c\<rparr>)))"
| "tagInputSchema _ = None"

datatype blockInput = TextIn string | PhotoIn string

fun recipeBlockInputSchema :: "json \<Rightarrow> blockInput option" where
  "recipeBlockInputSchema (JObj kvs) =
     (case map_of kvs ''type'' of
        Some (JStr t) \<Rightarrow>
          (if t = ''TEXT'' then map_option TextIn (z_string 0 None (map_of kvs ''text''))
           else if t = ''PHOTO'' then
             map_option PhotoIn (z_string 1 None (map_of kvs ''photoUrl''))
           else None)
      | _ \<Rightarrow> None)"
| "recipeBlockInputSchema _ = None"

record recipeInput =
  in_name :: string
  in_tags :: "tagInput list"
  in_blocks :: "blockInput list"

fun recipeUpsertSchema :: "json \<Rightarrow> recipeInput option" where
  "recipeUpsertSchema (JObj kvs) =
     (case z_string 1 (Some 120) (map_of kvs ''name'') of
        None \<Rightarrow> None
      | Some n \<Rightarrow>
          (case (case map_of kvs ''tags'' of
                   None \<Rightarrow> Some []
                 | Some j \<Rightarrow> z_array tagInputSchema j) of
             None \<Rightarrow> None
           | Some ts \<Rightarrow>
               (case (case map_of kvs ''blocks'' of
                        None \<Rightarrow> None
                      | Some j \<Rightarrow> z_array recipeBlockInputSchema j) of
                  None \<Rightarrow> None
                | Some bs \<Rightarrow>
                    (if 1 \<le> length bs
                     then Some \<lparr>in_name = n, in_tags = ts, in_blocks = bs\<rparr>
                     else None))))"
| "recipeUpsertSchema _ = None"

section \<open>Session tokens (auth.ts, signToken)\<close>

text \<open>
  The token library is outside the repository; it is modelled by its contract. A cookie
  value is either a string that is no well-formed token (\<open>Raw\<close>) or a token carrying a
  payload, the key it was signed with, and its issue and expiry times. A forged or
  tampered token is one whose signing key is not the server's.
\<close>

datatype token = Raw string | Jwt AuthUser string nat nat

datatype jwt_error = JsonWebTokenError | TokenExpiredError

text \<open>
  \<^verbatim>\<open>jwt.sign(payload, secret, { expiresIn })\<close> throws when the secret is empty or the
  time span cannot be read; the reading of a span (\<^verbatim>\<open>'7d'\<close>) is a parameter.
\<close>

definition jwt_sign ::
  "(string \<Rightarrow> nat option) \<Rightarrow> nat \<Rightarrow> AuthUser \<Rightarrow> string \<Rightarrow> string \<Rightarrow> jwt_error + token" where
  "jwt_sign timespan now payload secret expiresIn =
     (if secret = [] then Inl JsonWebTokenError
      else case timespan expiresIn of
             None \<Rightarrow> Inl JsonWebTokenError
           | Some d \<Rightarrow> Inr (Jwt payload secret now (now + d)))"

text \<open>\<^verbatim>\<open>jwt.verify(token, secret)\<close>: malformed, wrongly signed and expired tokens throw.\<close>

fun jwt_verify :: "nat \<Rightarrow> token \<Rightarrow> string \<Rightarrow> jwt_error + AuthUser" where
  "jwt_verify now (Raw s) secret = Inl JsonWebTokenError"
| "jwt_verify now (Jwt payload key iat exp) secret =
     (if secret = [] then Inl JsonWebTokenError
      else if key \<noteq> secret then Inl JsonWebTokenError
      else if exp \<le> now then Inl TokenExpiredError
      else Inr payload)"

text \<open>
  What a handler takes from outside the repository: the libraries' functions, the
  process environment and the clock.
\<close>

record ctx =
  isEmail :: "string \<Rightarrow> bool"
  bcrypt_hash :: "string \<Rightarrow> string"
  bcrypt_compare :: "string \<Rightarrow> string \<Rightarrow> bool"
  timespan :: "string \<Rightarrow> nat option"
  JWT_SECRET :: "string option"
  JWT_EXPIRES_IN :: "string option"
  NODE_ENV :: "string option"
  now :: nat

text \<open>\<^verbatim>\<open>a ?? b\<close>\<close>

fun nullish :: "'a option \<Rightarrow> 'a \<Rightarrow> 'a" where
  "nullish None d = d"
| "nullish (Some v) d = v"

definition signToken :: "ctx \<Rightarrow> AuthUser \<Rightarrow> jwt_error + token" where
  "signToken c user =
     (let secret = nullish (JWT_SECRET c) ''dev'';
          expiresIn = nullish (JWT_EXPIRES_IN c) ''7d''
      in jwt_sign (timespan c) (now c) user secret expiresIn)"

record authCookie =
  ck_name :: string
  ck_value :: token
  ck_httpOnly :: bool
  ck_sameSite :: string
  ck_secure :: bool
  ck_path :: string
  ck_maxAge :: nat

definition cookieName :: string where
  "cookieName = ''auth_token''"

definition setAuthCookie :: "ctx \<Rightarrow> token \<Rightarrow> authCookie" where
  "setAuthCookie c tok =
     (let isProd = (NODE_ENV c = Some ''production'')
      in \<lparr>ck_name = cookieName, ck_value = tok, ck_httpOnly = True,
           ck_sameSite = ''lax'', ck_secure = isProd, ck_path = ''/'',
           ck_maxAge = 7 * 24 * 60 * 60 * 1000\<rparr>)"

text \<open>
  A request: the value of the \<^verbatim>\<open>auth_token\<close> cookie when there is one, the identity
  attached by the middleware, the parsed body, the \<^verbatim>\<open>:id\<close> path parameter and the query
  parameters. The body parser (\<^verbatim>\<open>express.json\<close>) hands a handler an object or an array
  only, and the empty object when the request has no body; it answers any other JSON
  text itself.
\<close>

record request =
  cookie_auth_token :: "token option"
  user :: "AuthUser option"
  body :: json
  param_id :: ident
  query_q :: "string option"
  query_tagIds :: "string option"

text \<open>\<^verbatim>\<open>!token\<close> on a cookie that is present: the empty string.\<close>

fun falsy_token :: "token \<Rightarrow> bool" where
  "falsy_token (Raw s) = (s = [])"
| "falsy_token (Jwt p k i e) = False"

text \<open>
  The \<^verbatim>\<open>catch\<close> of \<open>authOptional\<close> swallows every error of the verification and
  leaves the request as it was.
\<close>

definition authOptional :: "ctx \<Rightarrow> request \<Rightarrow> request" where
  "authOptional c req =
     (case cookie_auth_token req of
        None \<Rightarrow> req
      | Some token \<Rightarrow>
          (if falsy_token token then req
           else case jwt_verify (now c) token (nullish (JWT_SECRET c) ''dev'') of
                  Inr payload \<Rightarrow> req\<lparr>user := Some payload\<rparr>
                | Inl e \<Rightarrow> req))"

section \<open>The data layer\<close>

text \<open>
  The client of the object-relational mapper (\<^verbatim>\<open>prisma.ts\<close>) and the schema of the store
  are not among the sources. Each operation the handlers call is therefore modelled from
  the specification: from its data model (section 3), from the contracts of the tag
  registry and the recipe repository (sections 4.2 and 4.4), and from the arguments the
  handlers pass. An operation takes the store and returns its result with the store; a
  failing operation returns an error and changes nothing but the log.
\<close>

definition logop :: "dbop \<Rightarrow> db \<Rightarrow> db" where
  "logop op d = d\<lparr>oplog := oplog d @ [op]\<rparr>"

text \<open>
  Modelled from the spec: \<^verbatim>\<open>prisma.user.findUnique({ where: { email } })\<close> of the absent
  client; the user with this email, if any (exact match on the stored value).
\<close>

definition user_findUnique :: "string \<Rightarrow> db \<Rightarrow> user_row option \<times> db" where
  "user_findUnique email d = (find (\<lambda>u. u_email u = email) (users d), logop UserFindUnique d)"

text \<open>
  Modelled from the spec: \<^verbatim>\<open>prisma.user.create\<close> of the absent client; a new row with a
  fresh identifier. The email is unique.
\<close>

definition user_create ::
  "string \<Rightarrow> string \<Rightarrow> string \<Rightarrow> Role \<Rightarrow> db \<Rightarrow> (dberror + user_row) \<times> db" where
  "user_create email displayName passwordHash role d =
     (let d1 = logop UserCreate d
      in if find (\<lambda>u. u_email u = email) (users d) \<noteq> None then (Inl UniqueConstraint, d1)
         else let row = \<lparr>u_id = nextId d, u_email = email, u_displayName = displayName,
                          u_passwordHash = passwordHash, u_role = role\<rparr>
              in (Inr row, d1\<lparr>users := users d @ [row], nextId := Suc (nextId d)\<rparr>))"

text \<open>
  Modelled from the spec: \<^verbatim>\<open>prisma.tag.upsert\<close> of the absent client, called with
  \<^verbatim>\<open>{ where: { name_color }, update: {}, create: { name, color } }\<close>; the row with this
  name and colour when there is one, left as it is, and a new row otherwise (section 4.2:
  looks up an existing tag matching the pair exactly; if absent, creates one).
\<close>

definition tag_upsert :: "string \<Rightarrow> string \<Rightarrow> db \<Rightarrow> tag_row \<times> db" where
  "tag_upsert name color d =
     (let d1 = logop TagUpsert d
      in case find (\<lambda>t. t_name t = name \<and> t_color t = color) (tags d) of
           Some t \<Rightarrow> (t, d1)
         | None \<Rightarrow>
             (let row = \<lparr>t_id = nextId d, t_name = name, t_color = color\<rparr>
              in (row, d1\<lparr>tags := tags d @ [row], nextId := Suc (nextId d)\<rparr>)))"

text \<open>What the nested \<^verbatim>\<open>create\<close> of a block carries.\<close>

record block_data =
  bd_order :: nat
  bd_type :: BlockType
  bd_text :: "string option"
  bd_photoUrl :: "string option"

text \<open>The new block rows: one fresh identifier each, from \<open>base\<close> on.\<close>

definition new_blocks :: "ident \<Rightarrow> block_data list \<Rightarrow> block_row list" where
  "new_blocks base bds =
     map (\<lambda>(k, bd). \<lparr>b_id = base + k, b_order = bd_order bd, b_type = bd_type bd,
                      b_text = bd_text bd, b_photoUrl = bd_photoUrl bd\<rparr>)
         (enumerate 0 bds)"

text \<open>
  Modelled from the spec: \<^verbatim>\<open>prisma.recipe.create\<close> of the absent client, with nested
  creates of the tag associations and the blocks. The owner and the tags must exist
  (section 3: association rows reference existing tags only), and no tag may be given
  twice (section 3: a recipe has a set of tag references, through an association with no
  extra attributes, so the pair of recipe and tag is the key of an association).
\<close>

definition recipe_create ::
  "nat \<Rightarrow> string \<Rightarrow> ident \<Rightarrow> ident list \<Rightarrow> block_data list \<Rightarrow> db \<Rightarrow> (dberror + recipe_row) \<times> db"
  where
  "recipe_create time name ownerId tagIds bds d =
     (let d1 = logop RecipeCreate d
      in if find (\<lambda>u. u_id u = ownerId) (users d) = None then (Inl ForeignKeyConstraint, d1)
         else if \<not> list_all (\<lambda>i. find (\<lambda>t. t_id t = i) (tags d) \<noteq> None) tagIds
         then (Inl ForeignKeyConstraint, d1)
         else if \<not> distinct tagIds then (Inl UniqueConstraint, d1)
         else let row = \<lparr>r_id = nextId d, r_name = name, r_ownerId = ownerId,
                          r_updatedAt = time, r_recipeTags = tagIds,
                          r_blocks = new_blocks (Suc (nextId d)) bds\<rparr>
              in (Inr row,
                  d1\<lparr>recipes := recipes d @ [row],
                     nextId := Suc (nextId d) + length bds\<rparr>))"

text \<open>
  Modelled from the spec:
  \<^verbatim>\<open>prisma.recipe.findUnique({ where: { id }, select: { ownerId: true } })\<close> of the absent
  client.
\<close>

definition recipe_findUnique :: "ident \<Rightarrow> db \<Rightarrow> recipe_row option \<times> db" where
  "recipe_findUnique i d = (find (\<lambda>r. r_id r = i) (recipes d), logop RecipeFindUnique d)"

text \<open>
  Modelled from the spec: \<^verbatim>\<open>prisma.recipe.update\<close> of the absent client, called with
  \<^verbatim>\<open>deleteMany: {}\<close> and \<^verbatim>\<open>create\<close> on both relations; the old associations and blocks
  go, the new ones are written, in one transaction (section 4.4). As on creation the tags
  must exist and no tag may be given twice; a failing update changes nothing.
\<close>

definition recipe_update ::
  "nat \<Rightarrow> ident \<Rightarrow> string \<Rightarrow> ident list \<Rightarrow> block_data list \<Rightarrow> db \<Rightarrow> (dberror + recipe_row) \<times> db"
  where
  "recipe_update time i name tagIds bds d =
     (let d1 = logop RecipeUpdate d
      in case find (\<lambda>r. r_id r = i) (recipes d) of
           None \<Rightarrow> (Inl RecordNotFound, d1)
         | Some old \<Rightarrow>
             (if \<not> list_all (\<lambda>j. find (\<lambda>t. t_id t = j) (tags d) \<noteq> None) tagIds
              then (Inl ForeignKeyConstraint, d1)
              else if \<not> distinct tagIds then (Inl UniqueConstraint, d1)
              else let row = old\<lparr>r_name := name, r_updatedAt := time, r_recipeTags := tagIds,
                                 r_blocks := new_blocks (nextId d) bds\<rparr>
                   in (Inr row,
                       d1\<lparr>recipes := map (\<lambda>r. if r_id r = i then row else r) (recipes d),
                          nextId := nextId d + length bds\<rparr>)))"

text \<open>
  Modelled from the spec: \<^verbatim>\<open>prisma.recipe.delete({ where: { id } })\<close> of the absent client;
  the recipe goes with its blocks and its tag associations, the tags stay (section 3).
\<close>

definition recipe_delete :: "ident \<Rightarrow> db \<Rightarrow> (dberror + recipe_row) \<times> db" where
  "recipe_delete i d =
     (let d1 = logop RecipeDelete d
      in case find (\<lambda>r. r_id r = i) (recipes d) of
           None \<Rightarrow> (Inl RecordNotFound, d1)
         | Some old \<Rightarrow> (Inr old, d1\<lparr>recipes := filter (\<lambda>r. r_id r \<noteq> i) (recipes d)\<rparr>))"

text \<open>
  Modelled from the spec: the \<^verbatim>\<open>select\<close> both read handlers pass to the absent client;
  the recipe with its owner's display name, its tags and its blocks in ascending order,
  all of them or the first \<open>n\<close> (\<^verbatim>\<open>take\<close>). The query asks for no order of the tags;
  they come here in the order they were written in. A required relation that is not there
  is an error of the query.
\<close>

record recipe_sel =
  s_id :: ident
  s_name :: string
  s_ownerId :: ident
  s_ownerDisplayName :: string
  s_tags :: "tag_row list"
  s_blocks :: "block_row list"

fun take_opt :: "nat option \<Rightarrow> 'a list \<Rightarrow> 'a list" where
  "take_opt None xs = xs"
| "take_opt (Some n) xs = take n xs"

definition select_recipe :: "db \<Rightarrow> nat option \<Rightarrow> recipe_row \<Rightarrow> dberror + recipe_sel" where
  "select_recipe d n r =
     (case find (\<lambda>u. u_id u = r_ownerId r) (users d) of
        None \<Rightarrow> Inl InconsistentResult
      | Some owner \<Rightarrow>
          (case those (map (\<lambda>i. find (\<lambda>t. t_id t = i) (tags d)) (r_recipeTags r)) of
             None \<Rightarrow> Inl InconsistentResult
           | Some ts \<Rightarrow>
               Inr \<lparr>s_id = r_id r, s_name = r_name r, s_ownerId = r_ownerId r,
                    s_ownerDisplayName = u_displayName owner, s_tags = ts,
                    s_blocks = take_opt n (sort_key b_order (r_blocks r))\<rparr>))"

fun sequence_sum :: "('e + 'a) list \<Rightarrow> 'e + 'a list" where
  "sequence_sum [] = Inr []"
| "sequence_sum (Inl e # xs) = Inl e"
| "sequence_sum (Inr x # xs) = (case sequence_sum xs of Inl e \<Rightarrow> Inl e | Inr ys \<Rightarrow> Inr (x # ys))"

text \<open>
  Modelled from the spec: \<^verbatim>\<open>prisma.recipe.findUnique\<close> of the absent client with the
  detail \<^verbatim>\<open>select\<close>.
\<close>

definition recipe_findUnique_select :: "ident \<Rightarrow> db \<Rightarrow> (dberror + recipe_sel option) \<times> db" where
  "recipe_findUnique_select i d =
     (let d1 = logop RecipeFindUnique d
      in case find (\<lambda>r. r_id r = i) (recipes d) of
           None \<Rightarrow> (Inr None, d1)
         | Some r \<Rightarrow>
             (case select_recipe d None r of
                Inl e \<Rightarrow> (Inl e, d1)
              | Inr s \<Rightarrow> (Inr (Some s), d1)))"

text \<open>
  Modelled from the spec: the filter \<^verbatim>\<open>contains\<close> with \<^verbatim>\<open>mode: 'insensitive'\<close> of the
  absent client; the needle occurs in the text, the case of the letters A to Z aside
  (section 4.5: case-insensitive substring match).
\<close>

definition lower :: "char \<Rightarrow> char" where
  "lower ch =
     (let n = (of_char ch :: nat) in if 65 \<le> n \<and> n \<le> 90 then char_of (n + 32) else ch)"

fun starts_with :: "string \<Rightarrow> string \<Rightarrow> bool" where
  "starts_with s [] = True"
| "starts_with [] (q # qs) = False"
| "starts_with (ch # s) (q # qs) = (ch = q \<and> starts_with s qs)"

fun occurs_in :: "string \<Rightarrow> string \<Rightarrow> bool" where
  "occurs_in q [] = (q = [])"
| "occurs_in q (ch # s) = (starts_with (ch # s) q \<or> occurs_in q s)"

definition contains_insensitive :: "string \<Rightarrow> string \<Rightarrow> bool" where
  "contains_insensitive q s = occurs_in (map lower q) (map lower s)"

text \<open>
  The \<^verbatim>\<open>where\<close> of the list handler: the name contains \<open>q\<close>, or some associated tag's
  name does.
\<close>

definition recipe_matches :: "db \<Rightarrow> string \<Rightarrow> recipe_row \<Rightarrow> bool" where
  "recipe_matches d q r =
     (contains_insensitive q (r_name r)
      \<or> list_ex (\<lambda>i. case find (\<lambda>t. t_id t = i) (tags d) of
                       None \<Rightarrow> False
                     | Some t \<Rightarrow> contains_insensitive q (t_name t))
                (r_recipeTags r))"

text \<open>
  Modelled from the spec: \<^verbatim>\<open>prisma.recipe.findMany\<close> of the absent client as the list
  handler calls it; \<open>w = None\<close> is \<^verbatim>\<open>where: undefined\<close>; most recently updated first;
  the first block of each recipe only.
\<close>

definition recipe_findMany :: "string option \<Rightarrow> db \<Rightarrow> (dberror + recipe_sel list) \<times> db" where
  "recipe_findMany w d =
     (let d1 = logop RecipeFindMany d;
          hits = (case w of None \<Rightarrow> recipes d | Some q \<Rightarrow> filter (recipe_matches d q) (recipes d));
          ordered = rev (sort_key r_updatedAt hits)
      in (sequence_sum (map (select_recipe d (Some 1)) ordered), d1))"

section \<open>The handlers (index.ts)\<close>

record listItem =
  it_id :: ident
  it_name :: string
  it_ownerId :: ident
  it_ownerDisplayName :: string
  it_tags :: "tag_row list"
  it_firstPhotoUrl :: "string option"

record recipeDetail =
  dt_id :: ident
  dt_name :: string
  dt_ownerId :: ident
  dt_ownerDisplayName :: string
  dt_tags :: "tag_row list"
  dt_blocks :: "block_row list"

datatype rbody =
  ErrorBody string | UserBody AuthUser | OkBody | IdBody ident
  | ListBody "listItem list" | DetailBody recipeDetail

record response =
  res_status :: nat
  res_body :: rbody
  res_cookie :: "authCookie option"

text \<open>\<^verbatim>\<open>res.status(n).json({ error: msg })\<close>\<close>

definition error_response :: "nat \<Rightarrow> string \<Rightarrow> response" where
  "error_response n msg = \<lparr>res_status = n, res_body = ErrorBody msg, res_cookie = None\<rparr>"

text \<open>\<^verbatim>\<open>res.json(b)\<close>\<close>

definition json_response :: "rbody \<Rightarrow> response" where
  "json_response b = \<lparr>res_status = 200, res_body = b, res_cookie = None\<rparr>"

definition requireAuth :: "request \<Rightarrow> response option" where
  "requireAuth req =
     (if user req = None then Some (error_response 401 ''Not authenticated'') else None)"

definition auth_user_of :: "user_row \<Rightarrow> AuthUser" where
  "auth_user_of u =
     \<lparr>au_id = u_id u, au_email = u_email u, au_displayName = u_displayName u, au_role = u_role u\<rparr>"

text \<open>\<^verbatim>\<open>app.post('/api/auth/register')\<close>\<close>

definition auth_register :: "ctx \<Rightarrow> request \<Rightarrow> db \<Rightarrow> response \<times> db" where
  "auth_register c req d =
     (case registerSchema (isEmail c) (body req) of
        None \<Rightarrow> (error_response 400 ''Invalid payload'', d)
      | Some parsed \<Rightarrow>
          (let (found, d1) = user_findUnique (ri_email parsed) d
           in if found \<noteq> None then (error_response 409 ''Email already used'', d1)
              else let passwordHash = bcrypt_hash c (ri_password parsed);
                       (created, d2) =
                          user_create (ri_email parsed) (ri_displayName parsed) passwordHash USER d1
                   in case created of
                        Inl e \<Rightarrow> (error_response 500 ''Server error'', d2)
                      | Inr u \<Rightarrow>
                          (case signToken c (auth_user_of u) of
                             Inl e \<Rightarrow> (error_response 500 ''Server error'', d2)
                           | Inr token \<Rightarrow>
                               (\<lparr>res_status = 200, res_body = UserBody (auth_user_of u),
                                 res_cookie = Some (setAuthCookie c token)\<rparr>, d2))))"

text \<open>\<^verbatim>\<open>app.post('/api/auth/login')\<close>\<close>

definition auth_login :: "ctx \<Rightarrow> request \<Rightarrow> db \<Rightarrow> response \<times> db" where
  "auth_login c req d =
     (case loginSchema (isEmail c) (body req) of
        None \<Rightarrow> (error_response 400 ''Invalid payload'', d)
      | Some parsed \<Rightarrow>
          (let (found, d1) = user_findUnique (li_email parsed) d
           in case found of
                None \<Rightarrow> (error_response 401 ''Invalid email or password'', d1)
              | Some u \<Rightarrow>
                  (if \<not> bcrypt_compare c (li_password parsed) (u_passwordHash u)
                   then (error_response 401 ''Invalid email or password'', d1)
                   else case signToken c (auth_user_of u) of
                          Inl e \<Rightarrow> (error_response 500 ''Server error'', d1)
                        | Inr token \<Rightarrow>
                            (\<lparr>res_status = 200, res_body = UserBody (auth_user_of u),
                              res_cookie = Some (setAuthCookie c token)\<rparr>, d1))))"

text \<open>
  \<^verbatim>\<open>String(req.query.q ?? '').trim()\<close>. Of the white space and line terminators that
  \<^verbatim>\<open>trim\<close> strips, the code units below 256 are 9 to 13, the space and the no-break
  space.
\<close>

definition is_space :: "char \<Rightarrow> bool" where
  "is_space ch =
     (ch \<in> set [CHR 0x09, CHR 0x0A, CHR 0x0B, CHR 0x0C, CHR 0x0D, CHR 0x20, CHR 0xA0])"

definition trim :: "string \<Rightarrow> string" where
  "trim s = rev (dropWhile is_space (rev (dropWhile is_space s)))"

definition list_item :: "recipe_sel \<Rightarrow> listItem" where
  "list_item r =
     \<lparr>it_id = s_id r, it_name = s_name r, it_ownerId = s_ownerId r,
      it_ownerDisplayName = s_ownerDisplayName r, it_tags = s_tags r,
      it_firstPhotoUrl =
        (case s_blocks r of
           [] \<Rightarrow> None
         | b # bs \<Rightarrow> (if b_type b = PHOTO then b_photoUrl b else None))\<rparr>"

text \<open>
  \<^verbatim>\<open>app.get('/api/recipes')\<close>. The handler reads \<^verbatim>\<open>req.query.q\<close> and no other query
  parameter.
\<close>

definition recipes_list :: "ctx \<Rightarrow> request \<Rightarrow> db \<Rightarrow> response \<times> db" where
  "recipes_list c req d =
     (let q = trim (nullish (query_q req) []);
          (found, d1) = recipe_findMany (if q \<noteq> [] then Some q else None) d
      in case found of
           Inl e \<Rightarrow> (error_response 500 ''Server error'', d1)
         | Inr rs \<Rightarrow> (json_response (ListBody (map list_item rs)), d1))"

text \<open>\<^verbatim>\<open>app.get('/api/recipes/:id')\<close>\<close>

definition recipes_get :: "ctx \<Rightarrow> request \<Rightarrow> db \<Rightarrow> response \<times> db" where
  "recipes_get c req d =
     (let (found, d1) = recipe_findUnique_select (param_id req) d
      in case found of
           Inl e \<Rightarrow> (error_response 500 ''Server error'', d1)
         | Inr None \<Rightarrow> (error_response 404 ''Not found'', d1)
         | Inr (Some r) \<Rightarrow>
             (json_response
                (DetailBody \<lparr>dt_id = s_id r, dt_name = s_name r, dt_ownerId = s_ownerId r,
                   dt_ownerDisplayName = s_ownerDisplayName r, dt_tags = s_tags r,
                   dt_blocks = s_blocks r\<rparr>), d1))"

fun canEdit :: "AuthUser option \<Rightarrow> ident \<Rightarrow> bool" where
  "canEdit None ownerId = False"
| "canEdit (Some u) ownerId = (if au_role u = ADMIN then True else au_id u = ownerId)"

text \<open>
  \<^verbatim>\<open>Promise.all(tags.map(async (t) => ... prisma.tag.upsert ...))\<close>: one upsert for each
  tag of the input, here in the order of the array.
\<close>

fun upsert_tags :: "tagInput list \<Rightarrow> db \<Rightarrow> ident list \<times> db" where
  "upsert_tags [] d = ([], d)"
| "upsert_tags (t # ts) d =
     (let (tag, d1) = tag_upsert (ti_name t) (ti_color t) d;
          (ids, d2) = upsert_tags ts d1
      in (t_id tag # ids, d2))"

text \<open>\<^verbatim>\<open>blocks.map((b, idx) => ...)\<close>\<close>

fun block_of_input :: "nat \<Rightarrow> blockInput \<Rightarrow> block_data" where
  "block_of_input idx (TextIn txt) =
     \<lparr>bd_order = idx, bd_type = TEXT, bd_text = Some txt, bd_photoUrl = None\<rparr>"
| "block_of_input idx (PhotoIn url) =
     \<lparr>bd_order = idx, bd_type = PHOTO, bd_text = None, bd_photoUrl = Some url\<rparr>"

definition blocks_of_input :: "blockInput list \<Rightarrow> block_data list" where
  "blocks_of_input bs = map (\<lambda>(idx, b). block_of_input idx b) (enumerate 0 bs)"

text \<open>
  \<^verbatim>\<open>app.post('/api/recipes', requireAuth, ...)\<close>: the handler, then the route with its
  middleware. \<^verbatim>\<open>req.user!.id\<close> throws when no identity is attached.
\<close>

definition recipes_post_handler :: "ctx \<Rightarrow> request \<Rightarrow> db \<Rightarrow> response \<times> db" where
  "recipes_post_handler c req d =
     (case recipeUpsertSchema (body req) of
        None \<Rightarrow> (error_response 400 ''Invalid payload'', d)
      | Some parsed \<Rightarrow>
          (case user req of
             None \<Rightarrow> (error_response 500 ''Server error'', d)
           | Some u \<Rightarrow>
               (let (tagIds, d1) = upsert_tags (in_tags parsed) d;
                    (created, d2) =
                       recipe_create (now c) (in_name parsed) (au_id u) tagIds
                         (blocks_of_input (in_blocks parsed)) d1
                in case created of
                     Inl e \<Rightarrow> (error_response 500 ''Server error'', d2)
                   | Inr r \<Rightarrow> (json_response (IdBody (r_id r)), d2))))"

definition recipes_post :: "ctx \<Rightarrow> request \<Rightarrow> db \<Rightarrow> response \<times> db" where
  "recipes_post c req d =
     (case requireAuth req of Some r \<Rightarrow> (r, d) | None \<Rightarrow> recipes_post_handler c req d)"

text \<open>\<^verbatim>\<open>app.put('/api/recipes/:id', requireAuth, ...)\<close>\<close>

definition recipes_put_handler :: "ctx \<Rightarrow> request \<Rightarrow> db \<Rightarrow> response \<times> db" where
  "recipes_put_handler c req d =
     (let (existing, d1) = recipe_findUnique (param_id req) d
      in case existing of
           None \<Rightarrow> (error_response 404 ''Not found'', d1)
         | Some ex \<Rightarrow>
             (if \<not> canEdit (user req) (r_ownerId ex) then (error_response 403 ''Forbidden'', d1)
              else case recipeUpsertSchema (body req) of
                     None \<Rightarrow> (error_response 400 ''Invalid payload'', d1)
                   | Some parsed \<Rightarrow>
                       (let (tagIds, d2) = upsert_tags (in_tags parsed) d1;
                            (updated, d3) =
                               recipe_update (now c) (param_id req) (in_name parsed) tagIds
                                 (blocks_of_input (in_blocks parsed)) d2
                        in case updated of
                             Inl e \<Rightarrow> (error_response 500 ''Server error'', d3)
                           | Inr r \<Rightarrow> (json_response OkBody, d3))))"

definition recipes_put :: "ctx \<Rightarrow> request \<Rightarrow> db \<Rightarrow> response \<times> db" where
  "recipes_put c req d =
     (case requireAuth req of Some r \<Rightarrow> (r, d) | None \<Rightarrow> recipes_put_handler c req d)"

text \<open>\<^verbatim>\<open>app.delete('/api/recipes/:id', requireAuth, ...)\<close>\<close>

definition recipes_delete_handler :: "ctx \<Rightarrow> request \<Rightarrow> db \<Rightarrow> response \<times> db" where
  "recipes_delete_handler c req d =
     (let (existing, d1) = recipe_findUnique (param_id req) d
      in case existing of
           None \<Rightarrow> (error_response 404 ''Not found'', d1)
         | Some ex \<Rightarrow>
             (if \<not> canEdit (user req) (r_ownerId ex) then (error_response 403 ''Forbidden'', d1)
              else let (deleted, d2) = recipe_delete (param_id req) d1
                   in case deleted of
                        Inl e \<Rightarrow> (error_response 500 ''Server error'', d2)
                      | Inr r \<Rightarrow> (json_response OkBody, d2)))"

definition recipes_delete :: "ctx \<Rightarrow> request \<Rightarrow> db \<Rightarrow> response \<times> db" where
  "recipes_delete c req d =
     (case requireAuth req of Some r \<Rightarrow> (r, d) | None \<Rightarrow> recipes_delete_handler c req d)"

section \<open>Well-formed stores and what a reader sees of a block\<close>

text \<open>
  What the store guarantees by its keys and constraints: identifiers come from the
  counter and are not reused, a tag's identifier and its pair of name and colour are
  unique, the owner of every recipe exists, and no recipe is associated with a tag twice.
\<close>

definition db_ok :: "db \<Rightarrow> bool" where
  "db_ok d =
     (list_all (\<lambda>t. t_id t < nextId d) (tags d)
      \<and> distinct (map t_id (tags d))
      \<and> distinct (map (\<lambda>t. (t_name t, t_color t)) (tags d))
      \<and> list_all (\<lambda>r. r_id r < nextId d
                       \<and> list_all (\<lambda>b. b_id b < nextId d) (r_blocks r)
                       \<and> find (\<lambda>u. u_id u = r_ownerId r) (users d) \<noteq> None)
                  (recipes d)
      \<and> list_all (\<lambda>r. distinct (r_recipeTags r)) (recipes d))"

text \<open>A stored block shows a submitted block: same variant, same content.\<close>

fun block_shows :: "blockInput \<Rightarrow> block_row \<Rightarrow> bool" where
  "block_shows (TextIn txt) b = (b_type b = TEXT \<and> b_text b = Some txt \<and> b_photoUrl b = None)"
| "block_shows (PhotoIn url) b = (b_type b = PHOTO \<and> b_photoUrl b = Some url \<and> b_text b = None)"

section \<open>A store, two users and a request to evaluate the handlers on\<close>

definition example_ctx :: ctx where
  "example_ctx =
     \<lparr>isEmail = (\<lambda>s. CHR ''@'' \<in> set s), bcrypt_hash = (\<lambda>p. ''h:'' @ p),
      bcrypt_compare = (\<lambda>p h. h = ''h:'' @ p),
      timespan = (\<lambda>s. if s = ''7d'' then Some 604800 else None),
      JWT_SECRET = None, JWT_EXPIRES_IN = None, NODE_ENV = None, now = 1000\<rparr>"

definition ann :: AuthUser where
  "ann = \<lparr>au_id = 0, au_email = ''ann@x.org'', au_displayName = ''Ann'', au_role = USER\<rparr>"

definition bob :: AuthUser where
  "bob = \<lparr>au_id = 1, au_email = ''bob@x.org'', au_displayName = ''Bob'', au_role = USER\<rparr>"

definition root :: AuthUser where
  "root = \<lparr>au_id = 99, au_email = ''root@x.org'', au_displayName = ''Admin'', au_role = ADMIN\<rparr>"

definition example_db :: db where
  "example_db =
     \<lparr>users =
        [\<lparr>u_id = 0, u_email = ''ann@x.org'', u_displayName = ''Ann'',
          u_passwordHash = ''h:password1'', u_role = USER\<rparr>,
         \<lparr>u_id = 1, u_email = ''bob@x.org'', u_displayName = ''Bob'',
          u_passwordHash = ''h:password2'', u_role = USER\<rparr>],
      tags =
        [\<lparr>t_id = 2, t_name = ''Vegan'', t_color = ''#00ff00''\<rparr>,
         \<lparr>t_id = 3, t_name = ''Quick'', t_color = ''#ff0000''\<rparr>],
      recipes =
        [\<lparr>r_id = 4, r_name = ''Soup'', r_ownerId = 0, r_updatedAt = 900,
          r_recipeTags = [2],
          r_blocks =
            [\<lparr>b_id = 5, b_order = 0, b_type = TEXT, b_text = Some ''a'', b_photoUrl = None\<rparr>,
             \<lparr>b_id = 6, b_order = 1, b_type = PHOTO, b_text = None,
              b_photoUrl = Some ''u1''\<rparr>]\<rparr>,
         \<lparr>r_id = 7, r_name = ''Salad'', r_ownerId = 1, r_updatedAt = 950,
          r_recipeTags = [2, 3],
          r_blocks =
            [\<lparr>b_id = 8, b_order = 0, b_type = PHOTO, b_text = None,
              b_photoUrl = Some ''u3''\<rparr>]\<rparr>],
      nextId = 9, oplog = []\<rparr>"

definition example_request :: request where
  "example_request =
     \<lparr>cookie_auth_token = None, user = None, body = JObj [], param_id = 4, query_q = None,
      query_tagIds = None\<rparr>"

definition login_body :: "string \<Rightarrow> string \<Rightarrow> json" where
  "login_body email password = JObj [(''email'', JStr email), (''password'', JStr password)]"

definition register_body :: json where
  "register_body =
     JObj [(''email'', JStr ''cy@x.org''), (''displayName'', JStr ''Cy''),
           (''password'', JStr ''password3'')]"

definition recipe_body :: json where
  "recipe_body =
     JObj [(''name'', JStr ''Stew''),
           (''tags'', JArr [JObj [(''name'', JStr ''Quick''), (''color'', JStr ''#ff0000'')],
                            JObj [(''name'', JStr ''Winter''), (''color'', JStr ''#0000ff'')]]),
           (''blocks'', JArr [JObj [(''type'', JStr ''PHOTO''), (''photoUrl'', JStr ''u2'')],
                              JObj [(''type'', JStr ''TEXT''), (''text'', JStr ''b'')],
                              JObj [(''type'', JStr ''TEXT''), (''text'', JStr ''c'')]])]"

definition repeated_tag_body :: json where
  "repeated_tag_body =
     JObj [(''name'', JStr ''Stew''),
           (''tags'', JArr [JObj [(''name'', JStr ''Quick''), (''color'', JStr ''#ff0000'')],
                            JObj [(''name'', JStr ''Quick''), (''color'', JStr ''#ff0000'')]]),
           (''blocks'', JArr [JObj [(''type'', JStr ''TEXT''), (''text'', JStr ''b'')]])]"

section \<open>Auxiliary facts\<close>

lemma logop_fields [simp]:
  "users (logop op d) = users d" "tags (logop op d) = tags d" "recipes (logop op d) = recipes d"
  "nextId (logop op d) = nextId d" "oplog (logop op d) = oplog d @ [op]"
  by (simp_all add: logop_def)

lemma find_append:
  "find P (xs @ ys) = (case find P xs of None \<Rightarrow> find P ys | Some x \<Rightarrow> Some x)"
  by (induction xs) simp_all

lemma filter_unique_key:
  "distinct (map f xs) \<Longrightarrow> x \<in> set xs \<Longrightarrow> filter (\<lambda>y. f y = f x) xs = [x]"
proof (induction xs)
  case Nil
  then show ?case by simp
next
  case (Cons a xs)
  show ?case
  proof (cases "a = x")
    case True
    have "f x \<notin> f ` set xs"
      using Cons.prems(1) True by simp
    then have "\<And>y. y \<in> set xs \<Longrightarrow> f y \<noteq> f x"
      by (metis imageI)
    then have "filter (\<lambda>y. f y = f x) xs = []"
      by (simp add: filter_empty_conv)
    with True show ?thesis by simp
  next
    case False
    with Cons.prems have "x \<in> set xs" by simp
    moreover have "f a \<noteq> f x" using Cons.prems(1) \<open>x \<in> set xs\<close> by auto
    ultimately show ?thesis using Cons by simp
  qed
qed

subsection \<open>Resolving the tags of an input\<close>

lemma tag_upsert_frame:
  "users (snd (tag_upsert n col d)) = users d"
  "recipes (snd (tag_upsert n col d)) = recipes d"
  by (simp_all add: tag_upsert_def Let_def split: option.splits)

lemma tag_upsert_returns_row:
  "fst (tag_upsert n col d) \<in> set (tags (snd (tag_upsert n col d)))"
  by (auto simp: tag_upsert_def Let_def find_Some_iff split: option.splits)

lemma tag_upsert_keeps_rows:
  "set (tags d) \<subseteq> set (tags (snd (tag_upsert n col d)))"
  by (auto simp: tag_upsert_def Let_def split: option.splits)

lemma upsert_tags_frame:
  "users (snd (upsert_tags ts d)) = users d \<and> recipes (snd (upsert_tags ts d)) = recipes d"
  by (induction ts arbitrary: d) (simp_all add: tag_upsert_frame case_prod_unfold Let_def)

lemma upsert_tags_keeps_rows:
  "set (tags d) \<subseteq> set (tags (snd (upsert_tags ts d)))"
proof (induction ts arbitrary: d)
  case Nil
  show ?case by simp
next
  case (Cons t ts)
  have "set (tags d) \<subseteq> set (tags (snd (tag_upsert (ti_name t) (ti_color t) d)))"
    by (rule tag_upsert_keeps_rows)
  also have "\<dots> \<subseteq> set (tags (snd (upsert_tags ts (snd (tag_upsert (ti_name t) (ti_color t) d)))))"
    by (rule Cons.IH)
  finally show ?case by (simp add: case_prod_unfold Let_def)
qed

lemma upsert_tags_ids_exist:
  "set (fst (upsert_tags ts d)) \<subseteq> t_id ` set (tags (snd (upsert_tags ts d)))"
proof (induction ts arbitrary: d)
  case Nil
  show ?case by simp
next
  case (Cons t ts)
  let ?d1 = "snd (tag_upsert (ti_name t) (ti_color t) d)"
  have "fst (tag_upsert (ti_name t) (ti_color t) d) \<in> set (tags ?d1)"
    by (rule tag_upsert_returns_row)
  then have "fst (tag_upsert (ti_name t) (ti_color t) d) \<in> set (tags (snd (upsert_tags ts ?d1)))"
    using upsert_tags_keeps_rows by blast
  with Cons.IH [of ?d1] show ?case by (auto simp: case_prod_unfold Let_def)
qed

lemma find_id_exists:
  "(\<exists>y. find (\<lambda>t. t_id t = j) xs = Some y) = (j \<in> t_id ` set xs)"
  by (cases "find (\<lambda>t. t_id t = j) xs") (auto simp: find_None_iff find_Some_iff)

lemma upsert_tags_fk:
  "upsert_tags ts d = (ids, d') \<Longrightarrow> list_all (\<lambda>j. find (\<lambda>t. t_id t = j) (tags d') \<noteq> None) ids"
  using upsert_tags_ids_exist [of ts d] by (auto simp: list_all_iff find_id_exists)

subsection \<open>What create, update and delete answer and leave behind\<close>

lemma find_replaced:
  "find (\<lambda>r. r_id r = i) xs = Some old \<Longrightarrow> r_id row = i \<Longrightarrow>
     find (\<lambda>r. r_id r = i) (map (\<lambda>r. if r_id r = i then row else r) xs) = Some row"
  by (induction xs) (auto split: if_splits)

lemma filter_replaced:
  "r_id row = i \<Longrightarrow>
     filter (\<lambda>r. r_id r \<noteq> i) (map (\<lambda>r. if r_id r = i then row else r) xs)
       = filter (\<lambda>r. r_id r \<noteq> i) xs"
  by (induction xs) auto

lemma find_fresh_recipe:
  "list_all (\<lambda>r. r_id r < n \<and> P r) xs \<Longrightarrow> n \<le> m \<Longrightarrow> find (\<lambda>r. r_id r = m) xs = None"
  by (auto simp: find_None_iff list_all_iff)

lemma post_outcome:
  assumes u: "user req = Some u"
    and owner: "find (\<lambda>x. u_id x = au_id u) (users d) \<noteq> None"
    and p: "recipeUpsertSchema (body req) = Some p"
  shows "recipes_post c req d =
     (if distinct (fst (upsert_tags (in_tags p) d))
      then (json_response (IdBody (nextId (snd (upsert_tags (in_tags p) d)))),
            (logop RecipeCreate (snd (upsert_tags (in_tags p) d)))
              \<lparr>recipes := recipes d @
                 [\<lparr>r_id = nextId (snd (upsert_tags (in_tags p) d)), r_name = in_name p,
                   r_ownerId = au_id u, r_updatedAt = now c,
                   r_recipeTags = fst (upsert_tags (in_tags p) d),
                   r_blocks = new_blocks (Suc (nextId (snd (upsert_tags (in_tags p) d))))
                                (blocks_of_input (in_blocks p))\<rparr>],
               nextId := Suc (nextId (snd (upsert_tags (in_tags p) d)))
                           + length (blocks_of_input (in_blocks p))\<rparr>)
      else (error_response 500 ''Server error'',
            logop RecipeCreate (snd (upsert_tags (in_tags p) d))))"
proof -
  let ?up = "upsert_tags (in_tags p) d"
  have frame: "users (snd ?up) = users d" "recipes (snd ?up) = recipes d"
    using upsert_tags_frame [of "in_tags p" d] by simp_all
  have fk: "list_all (\<lambda>j. find (\<lambda>t. t_id t = j) (tags (snd ?up)) \<noteq> None) (fst ?up)"
    by (rule upsert_tags_fk [of "in_tags p" d]) simp
  from owner obtain own where own: "find (\<lambda>x. u_id x = au_id u) (users d) = Some own" by blast
  show ?thesis
    using u p own fk frame
    by (simp add: recipes_post_def requireAuth_def recipes_post_handler_def recipe_create_def
        case_prod_unfold Let_def)
qed

lemma put_outcome:
  assumes ex: "find (\<lambda>r. r_id r = param_id req) (recipes d) = Some ex"
    and ce: "canEdit (user req) (r_ownerId ex)"
    and p: "recipeUpsertSchema (body req) = Some p"
  shows "recipes_put c req d =
     (if distinct (fst (upsert_tags (in_tags p) (logop RecipeFindUnique d)))
      then (json_response OkBody,
            (logop RecipeUpdate (snd (upsert_tags (in_tags p) (logop RecipeFindUnique d))))
              \<lparr>recipes :=
                 map (\<lambda>r. if r_id r = param_id req
                           then ex\<lparr>r_name := in_name p, r_updatedAt := now c,
                                  r_recipeTags :=
                                    fst (upsert_tags (in_tags p) (logop RecipeFindUnique d)),
                                  r_blocks :=
                                    new_blocks
                                      (nextId (snd (upsert_tags (in_tags p)
                                         (logop RecipeFindUnique d))))
                                      (blocks_of_input (in_blocks p))\<rparr>
                           else r) (recipes d),
               nextId := nextId (snd (upsert_tags (in_tags p) (logop RecipeFindUnique d)))
                           + length (blocks_of_input (in_blocks p))\<rparr>)
      else (error_response 500 ''Server error'',
            logop RecipeUpdate (snd (upsert_tags (in_tags p) (logop RecipeFindUnique d)))))"
proof -
  let ?up = "upsert_tags (in_tags p) (logop RecipeFindUnique d)"
  from ce obtain u where u: "user req = Some u" by (cases "user req") auto
  have frame: "users (snd ?up) = users d" "recipes (snd ?up) = recipes d"
    using upsert_tags_frame [of "in_tags p" "logop RecipeFindUnique d"] by simp_all
  have fk: "list_all (\<lambda>j. find (\<lambda>t. t_id t = j) (tags (snd ?up)) \<noteq> None) (fst ?up)"
    by (rule upsert_tags_fk [of "in_tags p" "logop RecipeFindUnique d"]) simp
  show ?thesis
    using u ex ce p fk frame
    by (simp add: recipes_put_def requireAuth_def recipes_put_handler_def recipe_findUnique_def
        recipe_update_def case_prod_unfold Let_def)
qed

lemma put_forbidden:
  assumes ex: "find (\<lambda>r. r_id r = param_id req) (recipes d) = Some ex"
    and u: "user req = Some u"
    and ce: "\<not> canEdit (user req) (r_ownerId ex)"
  shows "recipes_put c req d = (error_response 403 ''Forbidden'', logop RecipeFindUnique d)"
  using assms
  by (simp add: recipes_put_def requireAuth_def recipes_put_handler_def recipe_findUnique_def)

lemma delete_forbidden:
  assumes ex: "find (\<lambda>r. r_id r = param_id req) (recipes d) = Some ex"
    and u: "user req = Some u"
    and ce: "\<not> canEdit (user req) (r_ownerId ex)"
  shows "recipes_delete c req d = (error_response 403 ''Forbidden'', logop RecipeFindUnique d)"
  using assms
  by (simp add: recipes_delete_def requireAuth_def recipes_delete_handler_def
      recipe_findUnique_def)

lemma delete_permitted:
  assumes ex: "find (\<lambda>r. r_id r = param_id req) (recipes d) = Some ex"
    and ce: "canEdit (user req) (r_ownerId ex)"
  shows "recipes_delete c req d =
           (json_response OkBody,
            (logop RecipeDelete (logop RecipeFindUnique d))
              \<lparr>recipes := filter (\<lambda>r. r_id r \<noteq> param_id req) (recipes d)\<rparr>)"
proof -
  from ce obtain u where u: "user req = Some u" by (cases "user req") auto
  show ?thesis
    using ex ce u
    by (simp add: recipes_delete_def requireAuth_def recipes_delete_handler_def
        recipe_findUnique_def recipe_delete_def Let_def)
qed

subsection \<open>Blocks written from an input\<close>

lemma block_of_input_order [simp]: "bd_order (block_of_input idx b) = idx"
  by (cases b) simp_all

lemma length_blocks_of_input [simp]: "length (blocks_of_input bs) = length bs"
  by (simp add: blocks_of_input_def)

lemma length_new_blocks [simp]: "length (new_blocks base bds) = length bds"
  by (simp add: new_blocks_def)

lemma nth_blocks_of_input:
  "k < length bs \<Longrightarrow> blocks_of_input bs ! k = block_of_input k (bs ! k)"
  by (simp add: blocks_of_input_def nth_enumerate_eq)

lemma nth_new_blocks:
  "k < length bds \<Longrightarrow>
     new_blocks base bds ! k =
       \<lparr>b_id = base + k, b_order = bd_order (bds ! k), b_type = bd_type (bds ! k),
        b_text = bd_text (bds ! k), b_photoUrl = bd_photoUrl (bds ! k)\<rparr>"
  by (simp add: new_blocks_def nth_enumerate_eq)

lemma new_blocks_orders:
  "map b_order (new_blocks base (blocks_of_input bs)) = [0..<length bs]"
  by (rule nth_equalityI) (simp_all add: nth_new_blocks nth_blocks_of_input)

lemma new_blocks_show_input:
  "list_all2 block_shows bs (new_blocks base (blocks_of_input bs))"
proof (rule list_all2_all_nthI)
  show "length bs = length (new_blocks base (blocks_of_input bs))" by simp
next
  fix k assume "k < length bs"
  then show "block_shows (bs ! k) (new_blocks base (blocks_of_input bs) ! k)"
    by (cases "bs ! k") (simp_all add: nth_new_blocks nth_blocks_of_input)
qed


lemma new_blocks_ids_below:
  "list_all (\<lambda>b. b_id b < base + length bds) (new_blocks base bds)"
  by (auto simp: list_all_iff in_set_conv_nth nth_new_blocks)

lemma new_blocks_in_order:
  "sort_key b_order (new_blocks base (blocks_of_input bs)) = new_blocks base (blocks_of_input bs)"
  by (rule sort_key_id_if_sorted) (simp add: new_blocks_orders)

lemma recipeUpsertSchema_blocks: "recipeUpsertSchema j = Some p \<Longrightarrow> in_blocks p \<noteq> []"
  by (cases j) (auto split: option.splits if_splits)

subsection \<open>Identifiers of resolved tags\<close>

lemma find_unique_id:
  "distinct (map f xs) \<Longrightarrow> x \<in> set xs \<Longrightarrow> find (\<lambda>y. f y = f x) xs = Some x"
  by (induction xs) auto

lemma find_fresh_id:
  "list_all (\<lambda>t. t_id t < n) xs \<Longrightarrow> find (\<lambda>t. t_id t = n) xs = None"
  by (auto simp: find_None_iff list_all_iff)

lemma those_map_Some:
  "list_all2 (\<lambda>x y. f x = Some y) xs ys \<Longrightarrow> those (map f xs) = Some ys"
  by (induction rule: list_all2_induct) simp_all

lemma tag_upsert_step:
  assumes below: "list_all (\<lambda>t. t_id t < nextId d) (tags d)"
    and dist: "distinct (map t_id (tags d))"
  shows "list_all (\<lambda>t. t_id t < nextId (snd (tag_upsert n col d))) (tags (snd (tag_upsert n col d)))
       \<and> distinct (map t_id (tags (snd (tag_upsert n col d))))
       \<and> find (\<lambda>t. t_id t = t_id (fst (tag_upsert n col d))) (tags (snd (tag_upsert n col d)))
           = Some (fst (tag_upsert n col d))
       \<and> t_name (fst (tag_upsert n col d)) = n \<and> t_color (fst (tag_upsert n col d)) = col
       \<and> nextId d \<le> nextId (snd (tag_upsert n col d))
       \<and> (\<exists>new. tags (snd (tag_upsert n col d)) = tags d @ new)"
proof (cases "find (\<lambda>t. t_name t = n \<and> t_color t = col) (tags d)")
  case None
  have fresh: "find (\<lambda>t. t_id t = nextId d) (tags d) = None"
    using below by (rule find_fresh_id)
  have notin: "nextId d \<notin> t_id ` set (tags d)"
    using below by (auto simp: list_all_iff)
  have below': "list_all (\<lambda>t. t_id t < Suc (nextId d)) (tags d)"
    using below by (auto simp: list_all_iff)
  show ?thesis
    using None fresh notin below' dist
    by (simp add: tag_upsert_def Let_def find_append)
next
  case (Some t)
  then have t: "t \<in> set (tags d)" "t_name t = n" "t_color t = col"
    by (auto simp: find_Some_iff)
  have "find (\<lambda>y. t_id y = t_id t) (tags d) = Some t"
    using find_unique_id [OF dist t(1)] .
  then show ?thesis
    using Some t below dist by (simp add: tag_upsert_def Let_def)
qed

lemma upsert_tags_resolves:
  assumes "list_all (\<lambda>t. t_id t < nextId d) (tags d)" and "distinct (map t_id (tags d))"
  shows "nextId d \<le> nextId (snd (upsert_tags ts d))
       \<and> (\<exists>new. tags (snd (upsert_tags ts d)) = tags d @ new)
       \<and> (\<exists>rows. list_all2 (\<lambda>j t. find (\<lambda>t. t_id t = j) (tags (snd (upsert_tags ts d))) = Some t)
                     (fst (upsert_tags ts d)) rows
                 \<and> map (\<lambda>t. (t_name t, t_color t)) rows = map (\<lambda>t. (ti_name t, ti_color t)) ts)"
  using assms
proof (induction ts arbitrary: d)
  case Nil
  show ?case by simp
next
  case (Cons a ts)
  let ?u = "tag_upsert (ti_name a) (ti_color a) d"
  let ?d1 = "snd ?u"
  let ?r = "upsert_tags ts ?d1"
  note step = tag_upsert_step [OF Cons.prems, of "ti_name a" "ti_color a"]
  from step have ok1: "list_all (\<lambda>t. t_id t < nextId ?d1) (tags ?d1)" "distinct (map t_id (tags ?d1))"
    by simp_all
  from step have hit: "find (\<lambda>t. t_id t = t_id (fst ?u)) (tags ?d1) = Some (fst ?u)"
    and key: "t_name (fst ?u) = ti_name a" "t_color (fst ?u) = ti_color a"
    and mono1: "nextId d \<le> nextId ?d1"
    by simp_all
  from step obtain new1 where new1: "tags ?d1 = tags d @ new1" by blast
  from Cons.IH [OF ok1] obtain new2 rows where
    mono2: "nextId ?d1 \<le> nextId (snd ?r)"
    and new2: "tags (snd ?r) = tags ?d1 @ new2"
    and rows: "list_all2 (\<lambda>j t. find (\<lambda>t. t_id t = j) (tags (snd ?r)) = Some t) (fst ?r) rows"
      "map (\<lambda>t. (t_name t, t_color t)) rows = map (\<lambda>t. (ti_name t, ti_color t)) ts"
    by blast
  have hit2: "find (\<lambda>t. t_id t = t_id (fst ?u)) (tags (snd ?r)) = Some (fst ?u)"
    using hit by (simp add: new2 find_append)
  have res: "upsert_tags (a # ts) d = (t_id (fst ?u) # fst ?r, snd ?r)"
    by (simp add: case_prod_unfold Let_def)
  have "list_all2 (\<lambda>j t. find (\<lambda>t. t_id t = j) (tags (snd ?r)) = Some t)
          (t_id (fst ?u) # fst ?r) (fst ?u # rows)"
    using hit2 rows(1) by simp
  moreover have "map (\<lambda>t. (t_name t, t_color t)) (fst ?u # rows)
                 = map (\<lambda>t. (ti_name t, ti_color t)) (a # ts)"
    using key rows(2) by simp
  moreover have "tags (snd ?r) = tags d @ (new1 @ new2)"
    by (simp add: new1 new2)
  moreover have "nextId d \<le> nextId (snd ?r)"
    using mono1 mono2 by simp
  ultimately show ?case
    unfolding res fst_conv snd_conv by blast
qed

lemma looked_up_rows:
  "list_all2 (\<lambda>j t. f j = Some t) ids rows \<Longrightarrow> rows = map (\<lambda>j. the (f j)) ids"
  by (induction rule: list_all2_induct) simp_all

lemma resolved_ids_distinct:
  assumes "list_all2 (\<lambda>j t. f j = Some t) ids rows" and "distinct (map g rows)"
  shows "distinct ids"
proof -
  have "map g rows = map (\<lambda>j. g (the (f j))) ids"
    using looked_up_rows [OF assms(1)] by simp
  with assms(2) show ?thesis by (simp add: distinct_map)
qed

lemma upsert_tags_distinct_ids:
  assumes "list_all (\<lambda>t. t_id t < nextId d) (tags d)" and "distinct (map t_id (tags d))"
    and "distinct (map (\<lambda>t. (ti_name t, ti_color t)) ts)"
  shows "distinct (fst (upsert_tags ts d))"
proof -
  from upsert_tags_resolves [OF assms(1,2), of ts] obtain rows where
    rows: "list_all2 (\<lambda>j t. find (\<lambda>t. t_id t = j) (tags (snd (upsert_tags ts d))) = Some t)
             (fst (upsert_tags ts d)) rows"
    and keys: "map (\<lambda>t. (t_name t, t_color t)) rows = map (\<lambda>t. (ti_name t, ti_color t)) ts"
    by blast
  from keys assms(3) have "distinct (map (\<lambda>t. (t_name t, t_color t)) rows)" by simp
  with rows show ?thesis by (rule resolved_ids_distinct)
qed

section \<open>Well-formedness is kept by every handler\<close>

lemma db_ok_logop [simp]: "db_ok (logop op d) = db_ok d"
  by (simp add: db_ok_def)

lemma db_ok_empty: "db_ok \<lparr>users = [], tags = [], recipes = [], nextId = 0, oplog = []\<rparr>"
  by (simp add: db_ok_def)

lemma find_owner_append:
  "find P xs \<noteq> None \<Longrightarrow> find P (xs @ ys) \<noteq> None"
  by (auto simp: find_append split: option.splits)

lemma recipes_ok_mono:
  assumes "list_all (\<lambda>r. r_id r < n \<and> list_all (\<lambda>b. b_id b < n) (r_blocks r) \<and> P r) rs"
    and "n \<le> m" and "\<And>r. P r \<Longrightarrow> Q r"
  shows "list_all (\<lambda>r. r_id r < m \<and> list_all (\<lambda>b. b_id b < m) (r_blocks r) \<and> Q r) rs"
  using assms by (induction rs) (auto simp: list_all_iff)

lemma recipes_ok:
  "db_ok d \<Longrightarrow>
     list_all (\<lambda>r. r_id r < nextId d \<and> list_all (\<lambda>b. b_id b < nextId d) (r_blocks r)
                 \<and> find (\<lambda>u. u_id u = r_ownerId r) (users d) \<noteq> None) (recipes d)"
  by (simp add: db_ok_def)

lemma recipe_tags_ok:
  "db_ok d \<Longrightarrow> list_all (\<lambda>r. distinct (r_recipeTags r)) (recipes d)"
  by (simp add: db_ok_def)

lemma db_ok_user_create: "db_ok d \<Longrightarrow> db_ok (snd (user_create e n h r d))"
proof -
  assume ok: "db_ok d"
  have mono: "list_all (\<lambda>t. t_id t < Suc (nextId d)) (tags d)"
    using ok by (auto simp: db_ok_def list_all_iff)
  have recs: "list_all (\<lambda>r'. r_id r' < Suc (nextId d)
                \<and> list_all (\<lambda>b. b_id b < Suc (nextId d)) (r_blocks r')
                \<and> find (\<lambda>u. u_id u = r_ownerId r') (users d @ [x]) \<noteq> None) (recipes d)" for x
    by (rule recipes_ok_mono [OF recipes_ok [OF ok]]) (simp_all add: find_owner_append)
  show ?thesis
    using ok mono recs recipe_tags_ok [OF ok] by (simp add: user_create_def Let_def db_ok_def)
qed

lemma db_ok_tag_upsert: "db_ok d \<Longrightarrow> db_ok (snd (tag_upsert n col d))"
proof -
  assume ok: "db_ok d"
  then have below: "list_all (\<lambda>t. t_id t < nextId d) (tags d)"
    and dist: "distinct (map t_id (tags d))"
    and keys: "distinct (map (\<lambda>t. (t_name t, t_color t)) (tags d))"
    by (simp_all add: db_ok_def)
  note step = tag_upsert_step [OF below dist, of n col]
  show ?thesis
  proof (cases "find (\<lambda>t. t_name t = n \<and> t_color t = col) (tags d)")
    case (Some t)
    then show ?thesis using ok by (simp add: tag_upsert_def Let_def)
  next
    case None
    then have nokey: "(n, col) \<notin> (\<lambda>t. (t_name t, t_color t)) ` set (tags d)"
      by (auto simp: find_None_iff)
    have recs: "list_all (\<lambda>r'. r_id r' < Suc (nextId d)
                \<and> list_all (\<lambda>b. b_id b < Suc (nextId d)) (r_blocks r')
                \<and> find (\<lambda>u. u_id u = r_ownerId r') (users d) \<noteq> None) (recipes d)"
      by (rule recipes_ok_mono [OF recipes_ok [OF ok]]) simp_all
    have ids: "list_all (\<lambda>t. t_id t < Suc (nextId d)) (tags d)" "nextId d \<notin> t_id ` set (tags d)"
      using below by (auto simp: list_all_iff)
    show ?thesis
      using None nokey recs ids dist keys recipe_tags_ok [OF ok]
      by (simp add: tag_upsert_def Let_def db_ok_def)
  qed
qed

lemma db_ok_upsert_tags: "db_ok d \<Longrightarrow> db_ok (snd (upsert_tags ts d))"
  by (induction ts arbitrary: d) (simp_all add: case_prod_unfold Let_def db_ok_tag_upsert)

lemma db_ok_recipe_create: "db_ok d \<Longrightarrow> db_ok (snd (recipe_create time n ow ids bds d))"
proof -
  assume ok: "db_ok d"
  let ?m = "Suc (nextId d) + length bds"
  have tg: "list_all (\<lambda>t. t_id t < ?m) (tags d)"
    using ok by (auto simp: db_ok_def list_all_iff)
  have recs: "list_all (\<lambda>r'. r_id r' < ?m
                \<and> list_all (\<lambda>b. b_id b < ?m) (r_blocks r')
                \<and> find (\<lambda>u. u_id u = r_ownerId r') (users d) \<noteq> None) (recipes d)"
    by (rule recipes_ok_mono [OF recipes_ok [OF ok]]) simp_all
  have new: "list_all (\<lambda>b. b_id b < ?m) (new_blocks (Suc (nextId d)) bds)"
    using new_blocks_ids_below [of "Suc (nextId d)" bds] by simp
  show ?thesis
    using ok tg recs new recipe_tags_ok [OF ok]
    by (auto simp: recipe_create_def Let_def db_ok_def)
qed

lemma db_ok_recipe_update: "db_ok d \<Longrightarrow> db_ok (snd (recipe_update time i n ids bds d))"
proof (cases "find (\<lambda>r. r_id r = i) (recipes d)")
  case None
  assume "db_ok d"
  with None show ?thesis by (simp add: recipe_update_def Let_def)
next
  case (Some old)
  assume ok: "db_ok d"
  let ?m = "nextId d + length bds"
  from Some have oldin: "old \<in> set (recipes d)" by (auto simp: find_Some_iff)
  have tg: "list_all (\<lambda>t. t_id t < ?m) (tags d)"
    using ok by (auto simp: db_ok_def list_all_iff)
  have recs: "list_all (\<lambda>r'. r_id r' < ?m \<and> list_all (\<lambda>b. b_id b < ?m) (r_blocks r')
               \<and> find (\<lambda>u. u_id u = r_ownerId r') (users d) \<noteq> None) (recipes d)"
    by (rule recipes_ok_mono [OF recipes_ok [OF ok]]) simp_all
  then have rec: "r_id r' < ?m \<and> list_all (\<lambda>b. b_id b < ?m) (r_blocks r')
               \<and> find (\<lambda>u. u_id u = r_ownerId r') (users d) \<noteq> None"
    if "r' \<in> set (recipes d)" for r'
    using that unfolding list_all_iff by blast
  have new: "list_all (\<lambda>b. b_id b < ?m) (new_blocks (nextId d) bds)"
    by (rule new_blocks_ids_below)
  have "list_all (\<lambda>r'. r_id r' < ?m \<and> list_all (\<lambda>b. b_id b < ?m) (r_blocks r')
               \<and> find (\<lambda>u. u_id u = r_ownerId r') (users d) \<noteq> None)
          (map (\<lambda>r. if r_id r = i
                     then old\<lparr>r_name := n, r_updatedAt := time, r_recipeTags := ids,
                            r_blocks := new_blocks (nextId d) bds\<rparr>
                     else r) (recipes d))"
    using rec rec [OF oldin] new by (auto simp: list_all_iff)
  moreover have "list_all (\<lambda>r. distinct (r_recipeTags r))
          (map (\<lambda>r. if r_id r = i
                     then old\<lparr>r_name := n, r_updatedAt := time, r_recipeTags := ids,
                            r_blocks := new_blocks (nextId d) bds\<rparr>
                     else r) (recipes d))"
    if "distinct ids"
    using that recipe_tags_ok [OF ok] by (auto simp: list_all_iff)
  ultimately show ?thesis
    using ok Some tg by (auto simp: recipe_update_def Let_def db_ok_def)
qed

lemma db_ok_recipe_delete: "db_ok d \<Longrightarrow> db_ok (snd (recipe_delete i d))"
  by (auto simp: recipe_delete_def Let_def db_ok_def list_all_iff split: option.splits)

lemma handlers_keep_db_ok:
  assumes "db_ok d"
  shows "db_ok (snd (auth_register c req d))" and "db_ok (snd (auth_login c req d))"
    and "db_ok (snd (recipes_list c req d))" and "db_ok (snd (recipes_get c req d))"
    and "db_ok (snd (recipes_post c req d))" and "db_ok (snd (recipes_put c req d))"
    and "db_ok (snd (recipes_delete c req d))"
proof -
  show "db_ok (snd (auth_register c req d))"
    using assms db_ok_user_create [of "logop UserFindUnique d"]
    by (auto simp: auth_register_def user_findUnique_def case_prod_unfold Let_def
        split: option.splits sum.splits)
  show "db_ok (snd (auth_login c req d))"
    using assms
    by (auto simp: auth_login_def user_findUnique_def split: option.splits sum.splits)
  show "db_ok (snd (recipes_list c req d))"
    using assms
    by (auto simp: recipes_list_def recipe_findMany_def Let_def split: sum.splits)
  show "db_ok (snd (recipes_get c req d))"
    using assms
    by (auto simp: recipes_get_def recipe_findUnique_select_def Let_def
        split: sum.splits option.splits)
  show "db_ok (snd (recipes_post c req d))"
    using assms db_ok_recipe_create [OF db_ok_upsert_tags [OF assms]]
    by (auto simp: recipes_post_def recipes_post_handler_def case_prod_unfold Let_def
        split: option.splits sum.splits)
  have up: "db_ok (snd (upsert_tags ts (logop RecipeFindUnique d)))" for ts
    using assms by (simp add: db_ok_upsert_tags)
  show "db_ok (snd (recipes_put c req d))"
    using assms db_ok_recipe_update [OF up]
    by (auto simp: recipes_put_def recipes_put_handler_def recipe_findUnique_def
        case_prod_unfold Let_def split: option.splits sum.splits)
  show "db_ok (snd (recipes_delete c req d))"
    using assms db_ok_recipe_delete [of "logop RecipeFindUnique d"]
    by (auto simp: recipes_delete_def recipes_delete_handler_def recipe_findUnique_def
        case_prod_unfold Let_def split: option.splits sum.splits)
qed

section \<open>Optional authentication\<close>

text \<open>
  Claim C4. Optional authentication never raises: a request without the cookie, with a
  malformed token, with a token signed under another key or with an expired token comes
  back as it was, so an anonymous caller stays anonymous. A token produced by
  \<open>signToken\<close>, presented under the same secret before its expiry, attaches exactly the
  payload that was signed.
\<close>

theorem authOptional_identity:
  "(cookie_auth_token req = None \<longrightarrow> authOptional c req = req)
   \<and> (cookie_auth_token req = Some (Raw s) \<longrightarrow> authOptional c req = req)
   \<and> (cookie_auth_token req = Some (Jwt payload key iat exp)
        \<and> (key \<noteq> nullish (JWT_SECRET c) ''dev'' \<or> exp \<le> now c)
        \<longrightarrow> authOptional c req = req)
   \<and> (signToken c0 u = Inr tok \<and> JWT_SECRET c = JWT_SECRET c0
        \<and> timespan c0 (nullish (JWT_EXPIRES_IN c0) ''7d'') = Some span
        \<and> now c < now c0 + span
        \<longrightarrow> authOptional c (req\<lparr>cookie_auth_token := Some tok\<rparr>)
              = req\<lparr>cookie_auth_token := Some tok, user := Some u\<rparr>)"
  by (auto simp: authOptional_def signToken_def jwt_sign_def Let_def
      split: if_splits option.splits)

theorem authOptional_identity_witness:
  "signToken example_ctx ann = Inr (Jwt ann ''dev'' 1000 605800)
   \<and> authOptional (example_ctx\<lparr>now := 2000\<rparr>)
        (example_request\<lparr>cookie_auth_token := Some (Jwt ann ''dev'' 1000 605800)\<rparr>)
      = example_request\<lparr>cookie_auth_token := Some (Jwt ann ''dev'' 1000 605800),
          user := Some ann\<rparr>
   \<and> authOptional (example_ctx\<lparr>now := 605800\<rparr>)
        (example_request\<lparr>cookie_auth_token := Some (Jwt ann ''dev'' 1000 605800)\<rparr>)
      = example_request\<lparr>cookie_auth_token := Some (Jwt ann ''dev'' 1000 605800)\<rparr>
   \<and> authOptional example_ctx
        (example_request\<lparr>cookie_auth_token := Some (Jwt ann ''guess'' 1000 605800)\<rparr>)
      = example_request\<lparr>cookie_auth_token := Some (Jwt ann ''guess'' 1000 605800)\<rparr>
   \<and> authOptional example_ctx (example_request\<lparr>cookie_auth_token := Some (Raw ''x.y'')\<rparr>)
      = example_request\<lparr>cookie_auth_token := Some (Raw ''x.y'')\<rparr>
   \<and> authOptional example_ctx example_request = example_request"
proof -
  have s: "signToken example_ctx ann = Inr (Jwt ann ''dev'' 1000 605800)"
    by (simp add: signToken_def jwt_sign_def example_ctx_def)
  have sp: "timespan example_ctx (nullish (JWT_EXPIRES_IN example_ctx) ''7d'') = Some 604800"
    by (simp add: example_ctx_def)
  have a: "authOptional (example_ctx\<lparr>now := 2000\<rparr>)
        (example_request\<lparr>cookie_auth_token := Some (Jwt ann ''dev'' 1000 605800)\<rparr>)
      = example_request\<lparr>cookie_auth_token := Some (Jwt ann ''dev'' 1000 605800),
          user := Some ann\<rparr>"
    using authOptional_identity [of example_request "example_ctx\<lparr>now := 2000\<rparr>" "[]" ann "[]"
        0 0 example_ctx ann "Jwt ann ''dev'' 1000 605800" 604800] s sp
    by (simp add: example_ctx_def)
  have b: "authOptional (example_ctx\<lparr>now := 605800\<rparr>)
        (example_request\<lparr>cookie_auth_token := Some (Jwt ann ''dev'' 1000 605800)\<rparr>)
      = example_request\<lparr>cookie_auth_token := Some (Jwt ann ''dev'' 1000 605800)\<rparr>"
    using authOptional_identity
      [of "example_request\<lparr>cookie_auth_token := Some (Jwt ann ''dev'' 1000 605800)\<rparr>"
        "example_ctx\<lparr>now := 605800\<rparr>" "[]" ann "''dev''" 1000 605800]
    by (simp add: example_ctx_def)
  have c: "authOptional example_ctx
        (example_request\<lparr>cookie_auth_token := Some (Jwt ann ''guess'' 1000 605800)\<rparr>)
      = example_request\<lparr>cookie_auth_token := Some (Jwt ann ''guess'' 1000 605800)\<rparr>"
    using authOptional_identity
      [of "example_request\<lparr>cookie_auth_token := Some (Jwt ann ''guess'' 1000 605800)\<rparr>"
        example_ctx "[]" ann "''guess''" 1000 605800]
    by (simp add: example_ctx_def)
  have d: "authOptional example_ctx (example_request\<lparr>cookie_auth_token := Some (Raw ''x.y'')\<rparr>)
      = example_request\<lparr>cookie_auth_token := Some (Raw ''x.y'')\<rparr>"
    using authOptional_identity
      [of "example_request\<lparr>cookie_auth_token := Some (Raw ''x.y'')\<rparr>" example_ctx "''x.y''"]
    by simp
  have e: "authOptional example_ctx example_request = example_request"
    using authOptional_identity [of example_request example_ctx]
    by (simp add: example_request_def)
  from s a b c d e show ?thesis by blast
qed

section \<open>Registration and login\<close>

text \<open>
  Claim C10. A registration answered with status 200 has validated the payload, found
  the email unused and appended one user row made of the payload's email and display
  name, the hash of its password, the role USER and a fresh identifier. The response
  carries that user's identifier, email, display name and role as its body, and as its
  \<^verbatim>\<open>auth_token\<close> cookie the token that \<open>signToken\<close> makes for exactly these four values
  (http-only, same-site lax, path \<^verbatim>\<open>/\<close>, seven days). A later request carrying that
  token, under the same secret and before the expiry, is attributed to the new user
  without any login.
\<close>

theorem register_logs_in:
  assumes "auth_register c req d = (res, d')" and "res_status res = 200"
  shows "\<exists>parsed span ident tok.
           registerSchema (isEmail c) (body req) = Some parsed
         \<and> find (\<lambda>x. u_email x = ri_email parsed) (users d) = None
         \<and> users d' = users d @
              [\<lparr>u_id = nextId d, u_email = ri_email parsed,
                u_displayName = ri_displayName parsed,
                u_passwordHash = bcrypt_hash c (ri_password parsed), u_role = USER\<rparr>]
         \<and> ident = \<lparr>au_id = nextId d, au_email = ri_email parsed,
                     au_displayName = ri_displayName parsed, au_role = USER\<rparr>
         \<and> timespan c (nullish (JWT_EXPIRES_IN c) ''7d'') = Some span
         \<and> tok = Jwt ident (nullish (JWT_SECRET c) ''dev'') (now c) (now c + span)
         \<and> signToken c ident = Inr tok
         \<and> res = \<lparr>res_status = 200, res_body = UserBody ident,
                   res_cookie = Some \<lparr>ck_name = ''auth_token'', ck_value = tok,
                     ck_httpOnly = True, ck_sameSite = ''lax'',
                     ck_secure = (NODE_ENV c = Some ''production''), ck_path = ''/'',
                     ck_maxAge = 604800000\<rparr>\<rparr>
         \<and> (\<forall>c' req'. JWT_SECRET c' = JWT_SECRET c \<and> now c' < now c + span \<longrightarrow>
               user (authOptional c' (req'\<lparr>cookie_auth_token := Some tok\<rparr>)) = Some ident)"
  using assms
  by (auto simp: auth_register_def user_findUnique_def user_create_def error_response_def
      Let_def setAuthCookie_def cookieName_def signToken_def jwt_sign_def authOptional_def
      auth_user_of_def
      split: option.splits sum.splits if_splits)

theorem register_logs_in_witness:
  "fst (auth_register example_ctx (example_request\<lparr>body := register_body\<rparr>) example_db)
     = \<lparr>res_status = 200,
        res_body = UserBody \<lparr>au_id = 9, au_email = ''cy@x.org'', au_displayName = ''Cy'',
                     au_role = USER\<rparr>,
        res_cookie = Some \<lparr>ck_name = ''auth_token'',
          ck_value = Jwt \<lparr>au_id = 9, au_email = ''cy@x.org'', au_displayName = ''Cy'',
                       au_role = USER\<rparr> ''dev'' 1000 605800,
          ck_httpOnly = True, ck_sameSite = ''lax'', ck_secure = False, ck_path = ''/'',
          ck_maxAge = 604800000\<rparr>\<rparr>
   \<and> users (snd (auth_register example_ctx (example_request\<lparr>body := register_body\<rparr>)
        example_db))
     = users example_db @
         [\<lparr>u_id = 9, u_email = ''cy@x.org'', u_displayName = ''Cy'',
           u_passwordHash = ''h:password3'', u_role = USER\<rparr>]
   \<and> user (authOptional (example_ctx\<lparr>now := 5000\<rparr>)
        (example_request\<lparr>cookie_auth_token :=
           Some (Jwt \<lparr>au_id = 9, au_email = ''cy@x.org'', au_displayName = ''Cy'',
                   au_role = USER\<rparr> ''dev'' 1000 605800)\<rparr>))
     = Some \<lparr>au_id = 9, au_email = ''cy@x.org'', au_displayName = ''Cy'', au_role = USER\<rparr>"
proof -
  let ?r = "auth_register example_ctx (example_request\<lparr>body := register_body\<rparr>) example_db"
  have ok: "res_status (fst ?r) = 200"
    by (simp add: auth_register_def example_request_def register_body_def example_ctx_def
        example_db_def user_findUnique_def user_create_def signToken_def jwt_sign_def Let_def)
  have eq: "?r = (fst ?r, snd ?r)" by simp
  have parsed: "registerSchema (isEmail example_ctx)
                  (body (example_request\<lparr>body := register_body\<rparr>))
      = Some \<lparr>ri_email = ''cy@x.org'', ri_displayName = ''Cy'', ri_password = ''password3''\<rparr>"
    by (simp add: register_body_def example_ctx_def)
  have env: "nextId example_db = 9" "now example_ctx = 1000" "JWT_SECRET example_ctx = None"
    "NODE_ENV example_ctx = None" "bcrypt_hash example_ctx ''password3'' = ''h:password3''"
    "timespan example_ctx (nullish (JWT_EXPIRES_IN example_ctx) ''7d'') = Some 604800"
    by (simp_all add: example_db_def example_ctx_def)
  have later: "JWT_SECRET (example_ctx\<lparr>now := 5000\<rparr>) = JWT_SECRET example_ctx"
    "now (example_ctx\<lparr>now := 5000\<rparr>) < 1000 + 604800"
    by simp_all
  from register_logs_in [OF eq ok] obtain parsed span ident tok where
    a: "registerSchema (isEmail example_ctx) (body (example_request\<lparr>body := register_body\<rparr>))
          = Some parsed"
    and b: "users (snd ?r) = users example_db @
              [\<lparr>u_id = nextId example_db, u_email = ri_email parsed,
                u_displayName = ri_displayName parsed,
                u_passwordHash = bcrypt_hash example_ctx (ri_password parsed), u_role = USER\<rparr>]"
    and c: "ident = \<lparr>au_id = nextId example_db, au_email = ri_email parsed,
                     au_displayName = ri_displayName parsed, au_role = USER\<rparr>"
    and d: "timespan example_ctx (nullish (JWT_EXPIRES_IN example_ctx) ''7d'') = Some span"
    and e: "tok = Jwt ident (nullish (JWT_SECRET example_ctx) ''dev'') (now example_ctx)
                    (now example_ctx + span)"
    and f: "fst ?r = \<lparr>res_status = 200, res_body = UserBody ident,
                   res_cookie = Some \<lparr>ck_name = ''auth_token'', ck_value = tok,
                     ck_httpOnly = True, ck_sameSite = ''lax'',
                     ck_secure = (NODE_ENV example_ctx = Some ''production''), ck_path = ''/'',
                     ck_maxAge = 604800000\<rparr>\<rparr>"
    and g: "\<forall>c' req'. JWT_SECRET c' = JWT_SECRET example_ctx \<and> now c' < now example_ctx + span
               \<longrightarrow> user (authOptional c' (req'\<lparr>cookie_auth_token := Some tok\<rparr>)) = Some ident"
    by blast
  from a parsed have pv: "parsed = \<lparr>ri_email = ''cy@x.org'', ri_displayName = ''Cy'',
                                    ri_password = ''password3''\<rparr>"
    by simp
  from d env have sp: "span = 604800" by simp
  have iv: "ident = \<lparr>au_id = 9, au_email = ''cy@x.org'', au_displayName = ''Cy'',
                     au_role = USER\<rparr>"
    using c pv env by simp
  have tv: "tok = Jwt \<lparr>au_id = 9, au_email = ''cy@x.org'', au_displayName = ''Cy'',
                      au_role = USER\<rparr> ''dev'' 1000 605800"
    using e iv sp env by simp
  have "user (authOptional (example_ctx\<lparr>now := 5000\<rparr>)
                (example_request\<lparr>cookie_auth_token := Some tok\<rparr>)) = Some ident"
    using g later sp env by simp
  then show ?thesis
    using b f pv iv tv env by simp
qed

text \<open>
  Claim C8. A login that fails because no user has the email and a login that fails
  because the password does not match are answered alike: status 401 with the body
  \<^verbatim>\<open>Invalid email or password\<close> and no cookie, whatever the two stores and requests are.
\<close>

theorem login_failure_uniform:
  assumes "loginSchema (isEmail c) (body req) = Some p"
    and "loginSchema (isEmail c') (body req') = Some p'"
    and "find (\<lambda>u. u_email u = li_email p) (users d) = None"
    and "find (\<lambda>u. u_email u = li_email p') (users d') = Some u"
    and "\<not> bcrypt_compare c' (li_password p') (u_passwordHash u)"
  shows "fst (auth_login c req d) = error_response 401 ''Invalid email or password''
       \<and> fst (auth_login c' req' d') = fst (auth_login c req d)"
  using assms by (simp add: auth_login_def user_findUnique_def)

theorem login_failure_uniform_witness:
  "fst (auth_login example_ctx
          (example_request\<lparr>body := login_body ''zed@x.org'' ''password1''\<rparr>) example_db)
     = error_response 401 ''Invalid email or password''
   \<and> fst (auth_login example_ctx
          (example_request\<lparr>body := login_body ''ann@x.org'' ''password2''\<rparr>) example_db)
     = fst (auth_login example_ctx
          (example_request\<lparr>body := login_body ''zed@x.org'' ''password1''\<rparr>) example_db)
   \<and> res_status (fst (auth_login example_ctx
          (example_request\<lparr>body := login_body ''ann@x.org'' ''password1''\<rparr>) example_db)) = 200"
proof -
  have p: "loginSchema (isEmail example_ctx)
             (body (example_request\<lparr>body := login_body ''zed@x.org'' ''password1''\<rparr>))
           = Some \<lparr>li_email = ''zed@x.org'', li_password = ''password1''\<rparr>"
    by (simp add: login_body_def example_ctx_def)
  have p': "loginSchema (isEmail example_ctx)
             (body (example_request\<lparr>body := login_body ''ann@x.org'' ''password2''\<rparr>))
           = Some \<lparr>li_email = ''ann@x.org'', li_password = ''password2''\<rparr>"
    by (simp add: login_body_def example_ctx_def)
  have absent: "find (\<lambda>u. u_email u = li_email \<lparr>li_email = ''zed@x.org'', li_password = ''password1''\<rparr>)
                  (users example_db) = None"
    by (simp add: example_db_def)
  have present: "find (\<lambda>u. u_email u = li_email \<lparr>li_email = ''ann@x.org'', li_password = ''password2''\<rparr>)
                  (users example_db)
                 = Some \<lparr>u_id = 0, u_email = ''ann@x.org'', u_displayName = ''Ann'',
                     u_passwordHash = ''h:password1'', u_role = USER\<rparr>"
    by (simp add: example_db_def)
  have wrong: "\<not> bcrypt_compare example_ctx
                   (li_password \<lparr>li_email = ''ann@x.org'', li_password = ''password2''\<rparr>)
                   (u_passwordHash \<lparr>u_id = 0, u_email = ''ann@x.org'', u_displayName = ''Ann'',
                     u_passwordHash = ''h:password1'', u_role = USER\<rparr>)"
    by (simp add: example_ctx_def)
  have good: "res_status (fst (auth_login example_ctx
          (example_request\<lparr>body := login_body ''ann@x.org'' ''password1''\<rparr>) example_db)) = 200"
    by (simp add: auth_login_def login_body_def example_ctx_def example_db_def
        user_findUnique_def signToken_def jwt_sign_def Let_def)
  from login_failure_uniform [OF p p' absent present wrong] good show ?thesis by simp
qed

section \<open>Changing and removing a recipe\<close>

text \<open>
  Claim C6. An update or a delete that names no existing recipe is answered with
  404 \<^verbatim>\<open>Not found\<close> whoever the authenticated caller is and whatever the body is: the
  handlers look the recipe up before they check the permission. No such request is
  ever answered 403, and the recipes stay as they were.
\<close>

theorem missing_recipe_not_found:
  assumes "find (\<lambda>r. r_id r = param_id req) (recipes d) = None"
  shows "(user req \<noteq> None \<longrightarrow>
            fst (recipes_put c req d) = error_response 404 ''Not found''
            \<and> fst (recipes_delete c req d) = error_response 404 ''Not found'')
       \<and> res_status (fst (recipes_put c req d)) \<noteq> 403
       \<and> res_status (fst (recipes_delete c req d)) \<noteq> 403
       \<and> recipes (snd (recipes_put c req d)) = recipes d
       \<and> recipes (snd (recipes_delete c req d)) = recipes d"
  using assms
  by (auto simp: recipes_put_def recipes_delete_def requireAuth_def recipes_put_handler_def
      recipes_delete_handler_def recipe_findUnique_def error_response_def)

theorem missing_recipe_not_found_witness:
  "find (\<lambda>r. r_id r = param_id (example_request\<lparr>param_id := 99, user := Some bob\<rparr>))
     (recipes example_db) = None
   \<and> fst (recipes_put example_ctx (example_request\<lparr>param_id := 99, user := Some bob\<rparr>)
        example_db)
       = error_response 404 ''Not found''
   \<and> fst (recipes_delete example_ctx (example_request\<lparr>param_id := 99, user := Some bob\<rparr>)
        example_db)
       = error_response 404 ''Not found''
   \<and> fst (recipes_put example_ctx
        (example_request\<lparr>param_id := 99, user := Some root, body := recipe_body\<rparr>) example_db)
       = error_response 404 ''Not found''"
proof -
  have h: "find (\<lambda>r. r_id r = param_id (example_request\<lparr>param_id := 99, user := Some bob\<rparr>))
             (recipes example_db) = None"
    by (simp add: example_db_def example_request_def)
  have h': "find (\<lambda>r. r_id r = param_id
               (example_request\<lparr>param_id := 99, user := Some root, body := recipe_body\<rparr>))
             (recipes example_db) = None"
    by (simp add: example_db_def example_request_def)
  show ?thesis
    using h missing_recipe_not_found [OF h, of example_ctx]
      missing_recipe_not_found [OF h', of example_ctx]
    by simp
qed

text \<open>
  Claim C5. For an existing recipe and an authenticated caller, a delete is answered
  \<^verbatim>\<open>{ ok: true }\<close> iff the caller is the owner or an ADMIN, and then the recipe is gone
  and the others stay. In a well-formed store an update whose payload validates and
  names no tag twice is answered \<^verbatim>\<open>{ ok: true }\<close> iff the caller is the owner or an ADMIN,
  and then the recipe has the name, the blocks and the tags of the payload, keeps its
  owner, and the others stay. A caller who is neither is answered 403 \<^verbatim>\<open>Forbidden\<close> by both,
  whatever the body is, and the recipes stay as they were.
\<close>

theorem mutation_permission:
  assumes ex: "find (\<lambda>r. r_id r = param_id req) (recipes d) = Some ex"
    and u: "user req = Some u"
  shows "((fst (recipes_delete c req d) = json_response OkBody)
            = (au_id u = r_ownerId ex \<or> au_role u = ADMIN))
       \<and> (au_id u = r_ownerId ex \<or> au_role u = ADMIN \<longrightarrow>
            recipes (snd (recipes_delete c req d))
              = filter (\<lambda>r. r_id r \<noteq> param_id req) (recipes d))
       \<and> (db_ok d \<and> recipeUpsertSchema (body req) = Some p
            \<and> distinct (map (\<lambda>t. (ti_name t, ti_color t)) (in_tags p)) \<longrightarrow>
            ((fst (recipes_put c req d) = json_response OkBody)
               = (au_id u = r_ownerId ex \<or> au_role u = ADMIN))
            \<and> (au_id u = r_ownerId ex \<or> au_role u = ADMIN \<longrightarrow>
                 (\<exists>row. find (\<lambda>r. r_id r = param_id req) (recipes (snd (recipes_put c req d)))
                          = Some row
                        \<and> r_name row = in_name p \<and> r_ownerId row = r_ownerId ex
                        \<and> list_all2 block_shows (in_blocks p) (r_blocks row)
                        \<and> (\<exists>rows.
                              list_all2
                                (\<lambda>j t. find (\<lambda>x. t_id x = j)
                                         (tags (snd (recipes_put c req d))) = Some t)
                                (r_recipeTags row) rows
                            \<and> set (map (\<lambda>t. (t_name t, t_color t)) rows)
                                = set (map (\<lambda>t. (ti_name t, ti_color t)) (in_tags p))))
                 \<and> filter (\<lambda>r. r_id r \<noteq> param_id req) (recipes (snd (recipes_put c req d)))
                     = filter (\<lambda>r. r_id r \<noteq> param_id req) (recipes d)))
       \<and> (\<not> (au_id u = r_ownerId ex \<or> au_role u = ADMIN) \<longrightarrow>
            fst (recipes_delete c req d) = error_response 403 ''Forbidden''
            \<and> fst (recipes_put c req d) = error_response 403 ''Forbidden''
            \<and> recipes (snd (recipes_delete c req d)) = recipes d
            \<and> recipes (snd (recipes_put c req d)) = recipes d)"
proof -
  have ce: "canEdit (user req) (r_ownerId ex) = (au_id u = r_ownerId ex \<or> au_role u = ADMIN)"
    using u by auto
  from ex have exid: "r_id ex = param_id req" by (auto simp: find_Some_iff)
  show ?thesis
  proof (cases "canEdit (user req) (r_ownerId ex)")
    case True
    have del: "recipes_delete c req d =
           (json_response OkBody,
            (logop RecipeDelete (logop RecipeFindUnique d))
              \<lparr>recipes := filter (\<lambda>r. r_id r \<noteq> param_id req) (recipes d)\<rparr>)"
      using delete_permitted [OF ex True, of c] .
    have upd: "fst (recipes_put c req d) = json_response OkBody
        \<and> (\<exists>row. find (\<lambda>r. r_id r = param_id req) (recipes (snd (recipes_put c req d)))
                    = Some row
                  \<and> r_name row = in_name p \<and> r_ownerId row = r_ownerId ex
                  \<and> list_all2 block_shows (in_blocks p) (r_blocks row)
                  \<and> (\<exists>rows.
                        list_all2
                          (\<lambda>j t. find (\<lambda>x. t_id x = j)
                                   (tags (snd (recipes_put c req d))) = Some t)
                          (r_recipeTags row) rows
                      \<and> set (map (\<lambda>t. (t_name t, t_color t)) rows)
                          = set (map (\<lambda>t. (ti_name t, ti_color t)) (in_tags p))))
        \<and> filter (\<lambda>r. r_id r \<noteq> param_id req) (recipes (snd (recipes_put c req d)))
            = filter (\<lambda>r. r_id r \<noteq> param_id req) (recipes d)"
      if ok: "db_ok d" and p: "recipeUpsertSchema (body req) = Some p"
        and keys: "distinct (map (\<lambda>t. (ti_name t, ti_color t)) (in_tags p))"
    proof -
      let ?up = "upsert_tags (in_tags p) (logop RecipeFindUnique d)"
      let ?row = "ex\<lparr>r_name := in_name p, r_updatedAt := now c, r_recipeTags := fst ?up,
                    r_blocks := new_blocks (nextId (snd ?up)) (blocks_of_input (in_blocks p))\<rparr>"
      from ok have tags_ok:
        "list_all (\<lambda>t. t_id t < nextId (logop RecipeFindUnique d)) (tags (logop RecipeFindUnique d))"
        "distinct (map t_id (tags (logop RecipeFindUnique d)))"
        by (simp_all add: db_ok_def)
      have ids: "distinct (fst ?up)"
        using upsert_tags_distinct_ids [OF tags_ok keys] .
      note out = put_outcome [OF ex True p, of c]
      have "find (\<lambda>r. r_id r = param_id req)
              (map (\<lambda>r. if r_id r = param_id req then ?row else r) (recipes d)) = Some ?row"
        using find_replaced [OF ex, of ?row] exid by simp
      moreover have "filter (\<lambda>r. r_id r \<noteq> param_id req)
              (map (\<lambda>r. if r_id r = param_id req then ?row else r) (recipes d))
            = filter (\<lambda>r. r_id r \<noteq> param_id req) (recipes d)"
        using filter_replaced [of ?row "param_id req" "recipes d"] exid by simp
      moreover have "list_all2 block_shows (in_blocks p) (r_blocks ?row)"
        by (simp add: new_blocks_show_input)
      moreover have "\<exists>rows.
              list_all2 (\<lambda>j t. find (\<lambda>x. t_id x = j) (tags (snd ?up)) = Some t) (fst ?up) rows
            \<and> set (map (\<lambda>t. (t_name t, t_color t)) rows)
                = set (map (\<lambda>t. (ti_name t, ti_color t)) (in_tags p))"
      proof -
        from upsert_tags_resolves [OF tags_ok, of "in_tags p"] obtain rows where
          r1: "list_all2 (\<lambda>j t. find (\<lambda>x. t_id x = j) (tags (snd ?up)) = Some t) (fst ?up) rows"
          and r2: "map (\<lambda>t. (t_name t, t_color t)) rows
                   = map (\<lambda>t. (ti_name t, ti_color t)) (in_tags p)"
          by blast
        from r2 have "set (map (\<lambda>t. (t_name t, t_color t)) rows)
                      = set (map (\<lambda>t. (ti_name t, ti_color t)) (in_tags p))"
          by simp
        with r1 show ?thesis by blast
      qed
      ultimately show ?thesis
        using ids by (simp add: out)
    qed
    from True ce del upd show ?thesis by auto
  next
    case False
    have del: "recipes_delete c req d = (error_response 403 ''Forbidden'', logop RecipeFindUnique d)"
      using delete_forbidden [OF ex u False, of c] .
    have upd: "recipes_put c req d = (error_response 403 ''Forbidden'', logop RecipeFindUnique d)"
      using put_forbidden [OF ex u False, of c] .
    from False ce show ?thesis
      by (simp add: del upd error_response_def json_response_def)
  qed
qed

theorem mutation_permission_witness:
  "fst (recipes_delete example_ctx (example_request\<lparr>user := Some ann\<rparr>) example_db)
     = json_response OkBody
   \<and> map r_id (recipes (snd (recipes_delete example_ctx (example_request\<lparr>user := Some ann\<rparr>)
        example_db))) = [7]
   \<and> fst (recipes_delete example_ctx (example_request\<lparr>user := Some root\<rparr>) example_db)
     = json_response OkBody
   \<and> map r_id (recipes (snd (recipes_delete example_ctx (example_request\<lparr>user := Some root\<rparr>)
        example_db))) = [7]
   \<and> fst (recipes_delete example_ctx (example_request\<lparr>user := Some bob\<rparr>) example_db)
     = error_response 403 ''Forbidden''
   \<and> recipes (snd (recipes_delete example_ctx (example_request\<lparr>user := Some bob\<rparr>)
        example_db)) = recipes example_db
   \<and> fst (recipes_put example_ctx (example_request\<lparr>user := Some ann, body := recipe_body\<rparr>)
        example_db) = json_response OkBody
   \<and> (\<exists>row. find (\<lambda>r. r_id r = 4) (recipes (snd (recipes_put example_ctx
                 (example_request\<lparr>user := Some ann, body := recipe_body\<rparr>) example_db)))
               = Some row
            \<and> r_name row = ''Stew'' \<and> r_ownerId row = 0
            \<and> list_all2 block_shows [PhotoIn ''u2'', TextIn ''b'', TextIn ''c''] (r_blocks row)
            \<and> (\<exists>rows.
                  list_all2
                    (\<lambda>j t. find (\<lambda>x. t_id x = j)
                             (tags (snd (recipes_put example_ctx
                                (example_request\<lparr>user := Some ann, body := recipe_body\<rparr>)
                                example_db))) = Some t)
                    (r_recipeTags row) rows
                \<and> set (map (\<lambda>t. (t_name t, t_color t)) rows)
                    = {(''Quick'', ''#ff0000''), (''Winter'', ''#0000ff'')}))
   \<and> map (\<lambda>r. (r_id r, r_name r, r_ownerId r, set (r_recipeTags r), map b_id (r_blocks r)))
        (recipes (snd (recipes_put example_ctx
           (example_request\<lparr>user := Some ann, body := recipe_body\<rparr>) example_db)))
     = [(4, ''Stew'', 0, {3, 9}, [10, 11, 12]), (7, ''Salad'', 1, {2, 3}, [8])]
   \<and> map r_id (filter (\<lambda>r. r_id r \<noteq> 4) (recipes (snd (recipes_put example_ctx
        (example_request\<lparr>user := Some ann, body := recipe_body\<rparr>) example_db)))) = [7]
   \<and> fst (recipes_put example_ctx (example_request\<lparr>user := Some root, body := recipe_body\<rparr>)
        example_db) = json_response OkBody
   \<and> fst (recipes_put example_ctx (example_request\<lparr>user := Some bob, body := recipe_body\<rparr>)
        example_db) = error_response 403 ''Forbidden''
   \<and> recipes (snd (recipes_put example_ctx
        (example_request\<lparr>user := Some bob, body := recipe_body\<rparr>) example_db))
     = recipes example_db"
proof -
  let ?soup = "\<lparr>r_id = 4, r_name = ''Soup'', r_ownerId = 0, r_updatedAt = 900,
          r_recipeTags = [2],
          r_blocks =
            [\<lparr>b_id = 5, b_order = 0, b_type = TEXT, b_text = Some ''a'', b_photoUrl = None\<rparr>,
             \<lparr>b_id = 6, b_order = 1, b_type = PHOTO, b_text = None,
              b_photoUrl = Some ''u1''\<rparr>]\<rparr>"
  let ?p = "\<lparr>in_name = ''Stew'',
            in_tags = [\<lparr>ti_id = None, ti_name = ''Quick'', ti_color = ''#ff0000''\<rparr>,
                       \<lparr>ti_id = None, ti_name = ''Winter'', ti_color = ''#0000ff''\<rparr>],
            in_blocks = [PhotoIn ''u2'', TextIn ''b'', TextIn ''c'']\<rparr>"
  have ex: "find (\<lambda>r. r_id r = param_id (example_request\<lparr>user := Some w, body := b\<rparr>))
              (recipes example_db) = Some ?soup" for w b
    by (simp add: example_db_def example_request_def)
  have ex': "find (\<lambda>r. r_id r = param_id (example_request\<lparr>user := Some w\<rparr>))
              (recipes example_db) = Some ?soup" for w
    by (simp add: example_db_def example_request_def)
  have ok: "db_ok example_db"
    by (simp add: db_ok_def example_db_def)
  have valid: "recipeUpsertSchema recipe_body = Some ?p"
    by (simp add: recipe_body_def)
  have keys: "distinct (map (\<lambda>t. (ti_name t, ti_color t)) (in_tags ?p))"
    by simp
  have u: "user (example_request\<lparr>user := Some w, body := b\<rparr>) = Some w" for w b
    by simp
  have u': "user (example_request\<lparr>user := Some w\<rparr>) = Some w" for w
    by simp
  have i: "param_id (example_request\<lparr>user := Some w, body := b\<rparr>) = 4"
    "param_id (example_request\<lparr>user := Some w\<rparr>) = 4" for w b
    by (simp_all add: example_request_def)
  have others: "filter (\<lambda>r. r_id r \<noteq> 4) (recipes example_db)
      = [\<lparr>r_id = 7, r_name = ''Salad'', r_ownerId = 1, r_updatedAt = 950,
          r_recipeTags = [2, 3],
          r_blocks =
            [\<lparr>b_id = 8, b_order = 0, b_type = PHOTO, b_text = None,
              b_photoUrl = Some ''u3''\<rparr>]\<rparr>]"
    by (simp add: example_db_def)
  have stored: "map (\<lambda>r. (r_id r, r_name r, r_ownerId r, set (r_recipeTags r), map b_id (r_blocks r)))
        (recipes (snd (recipes_put example_ctx
           (example_request\<lparr>user := Some ann, body := recipe_body\<rparr>) example_db)))
     = [(4, ''Stew'', 0, {3, 9}, [10, 11, 12]), (7, ''Salad'', 1, {2, 3}, [8])]"
    by (simp add: recipes_put_def requireAuth_def recipes_put_handler_def recipe_findUnique_def
        recipe_body_def tag_upsert_def recipe_update_def blocks_of_input_def new_blocks_def
        logop_def example_request_def example_ctx_def example_db_def ann_def Let_def)
  show ?thesis
    using mutation_permission [OF ex' [of ann] u' [of ann], of example_ctx ?p]
      mutation_permission [OF ex' [of root] u' [of root], of example_ctx ?p]
      mutation_permission [OF ex' [of bob] u' [of bob], of example_ctx ?p]
      mutation_permission [OF ex [where w = ann and b = recipe_body]
        u [where w = ann and b = recipe_body], of example_ctx ?p]
      mutation_permission [OF ex [where w = root and b = recipe_body]
        u [where w = root and b = recipe_body], of example_ctx ?p]
      mutation_permission [OF ex [where w = bob and b = recipe_body]
        u [where w = bob and b = recipe_body], of example_ctx ?p]
      ok valid keys stored
    by (simp add: ann_def bob_def root_def i others)
qed

section \<open>The tag registry\<close>

text \<open>
  Claim C7. In a store whose tags are unique by name and colour, resolving a pair twice
  in sequence returns the same row, hence the same identifier, both times; the second
  call changes no tag, and afterwards exactly one row has that pair. A resolution that
  finds a row returns that row and creates nothing.
\<close>

theorem tag_upsert_idempotent:
  assumes uniq: "distinct (map (\<lambda>t. (t_name t, t_color t)) (tags d))"
  shows "fst (tag_upsert n col (snd (tag_upsert n col d))) = fst (tag_upsert n col d)
       \<and> tags (snd (tag_upsert n col (snd (tag_upsert n col d)))) = tags (snd (tag_upsert n col d))
       \<and> filter (\<lambda>t. t_name t = n \<and> t_color t = col)
            (tags (snd (tag_upsert n col (snd (tag_upsert n col d)))))
           = [fst (tag_upsert n col d)]
       \<and> (\<forall>t. find (\<lambda>t. t_name t = n \<and> t_color t = col) (tags d) = Some t \<longrightarrow>
              fst (tag_upsert n col d) = t \<and> tags (snd (tag_upsert n col d)) = tags d)"
proof (cases "find (\<lambda>t. t_name t = n \<and> t_color t = col) (tags d)")
  case None
  then have no: "filter (\<lambda>t. t_name t = n \<and> t_color t = col) (tags d) = []"
    by (auto simp: find_None_iff filter_empty_conv)
  have first: "tag_upsert n col d =
      (\<lparr>t_id = nextId d, t_name = n, t_color = col\<rparr>,
       (logop TagUpsert d)\<lparr>tags := tags d @ [\<lparr>t_id = nextId d, t_name = n, t_color = col\<rparr>],
          nextId := Suc (nextId d)\<rparr>)"
    using None by (simp add: tag_upsert_def Let_def)
  have again: "find (\<lambda>t. t_name t = n \<and> t_color t = col)
                 (tags d @ [\<lparr>t_id = nextId d, t_name = n, t_color = col\<rparr>])
               = Some \<lparr>t_id = nextId d, t_name = n, t_color = col\<rparr>"
    using None by (simp add: find_append)
  show ?thesis
    using None no again by (simp add: first) (simp add: tag_upsert_def Let_def)
next
  case (Some t)
  then have t: "t \<in> set (tags d)" "t_name t = n" "t_color t = col"
    by (auto simp: find_Some_iff)
  have "filter (\<lambda>y. (t_name y, t_color y) = (t_name t, t_color t)) (tags d) = [t]"
    using filter_unique_key [OF uniq t(1)] .
  then have one: "filter (\<lambda>t. t_name t = n \<and> t_color t = col) (tags d) = [t]"
    using t by simp
  have first: "tag_upsert n col d = (t, logop TagUpsert d)"
    using Some by (simp add: tag_upsert_def Let_def)
  have second: "tag_upsert n col (logop TagUpsert d) = (t, logop TagUpsert (logop TagUpsert d))"
    using Some by (simp add: tag_upsert_def Let_def)
  show ?thesis using Some one by (simp add: first second)
qed

theorem tag_upsert_idempotent_witness:
  "distinct (map (\<lambda>t. (t_name t, t_color t)) (tags example_db))
   \<and> fst (tag_upsert ''Vegan'' ''#00ff00'' example_db)
       = \<lparr>t_id = 2, t_name = ''Vegan'', t_color = ''#00ff00''\<rparr>
   \<and> fst (tag_upsert ''Vegan'' ''#00ff00'' (snd (tag_upsert ''Vegan'' ''#00ff00'' example_db)))
       = fst (tag_upsert ''Vegan'' ''#00ff00'' example_db)
   \<and> filter (\<lambda>t. t_name t = ''Vegan'' \<and> t_color t = ''#00ff00'')
        (tags (snd (tag_upsert ''Vegan'' ''#00ff00''
           (snd (tag_upsert ''Vegan'' ''#00ff00'' example_db)))))
       = [fst (tag_upsert ''Vegan'' ''#00ff00'' example_db)]
   \<and> fst (tag_upsert ''Vegan'' ''#0000ff'' (snd (tag_upsert ''Vegan'' ''#0000ff'' example_db)))
       = fst (tag_upsert ''Vegan'' ''#0000ff'' example_db)
   \<and> t_id (fst (tag_upsert ''Vegan'' ''#0000ff'' example_db)) = 9"
proof -
  have h: "distinct (map (\<lambda>t. (t_name t, t_color t)) (tags example_db))"
    by (simp add: example_db_def)
  have f: "find (\<lambda>t. t_name t = ''Vegan'' \<and> t_color t = ''#00ff00'') (tags example_db)
      = Some \<lparr>t_id = 2, t_name = ''Vegan'', t_color = ''#00ff00''\<rparr>"
    by (simp add: example_db_def)
  have n: "t_id (fst (tag_upsert ''Vegan'' ''#0000ff'' example_db)) = 9"
    by (simp add: tag_upsert_def example_db_def Let_def)
  show ?thesis
    using h f n tag_upsert_idempotent [OF h, of "''Vegan''" "''#00ff00''"]
      tag_upsert_idempotent [OF h, of "''Vegan''" "''#0000ff''"]
    by (simp add: example_db_def)
qed

section \<open>Writing a recipe and reading it back\<close>

text \<open>
  Claim C2. In a well-formed store, for a caller whose user row exists and a payload that
  validates (so that it has at least one block): when the payload names no tag twice the
  create handler answers 200 with an identifier; and whenever it answers 200 with an
  identifier, reading that identifier back answers 200 with the submitted name and with
  as many blocks as were submitted, in the submitted order: the order values are
  0, 1, ... and the block at each position shows the submitted block of that position.
\<close>

theorem create_then_read:
  assumes ok: "db_ok d" and u: "user req = Some u"
    and owner: "find (\<lambda>x. u_id x = au_id u) (users d) \<noteq> None"
    and p: "recipeUpsertSchema (body req) = Some p"
  shows "(distinct (map (\<lambda>t. (ti_name t, ti_color t)) (in_tags p)) \<longrightarrow>
            (\<exists>i d'. recipes_post c req d = (json_response (IdBody i), d')))
       \<and> (\<forall>i d'. recipes_post c req d = (json_response (IdBody i), d') \<longrightarrow>
            (\<exists>det d''.
               recipes_get c' (req'\<lparr>param_id := i\<rparr>) d' = (json_response (DetailBody det), d'')
             \<and> dt_id det = i \<and> dt_name det = in_name p \<and> dt_ownerId det = au_id u
             \<and> in_blocks p \<noteq> []
             \<and> map b_order (dt_blocks det) = [0..<length (in_blocks p)]
             \<and> list_all2 block_shows (in_blocks p) (dt_blocks det)))"
proof -
  let ?up = "upsert_tags (in_tags p) d"
  let ?ids = "fst ?up"
  let ?d1 = "snd ?up"
  let ?bds = "blocks_of_input (in_blocks p)"
  let ?new = "new_blocks (Suc (nextId ?d1)) ?bds"
  let ?row = "\<lparr>r_id = nextId ?d1, r_name = in_name p, r_ownerId = au_id u,
               r_updatedAt = now c, r_recipeTags = ?ids, r_blocks = ?new\<rparr>"
  let ?d2 = "(logop RecipeCreate ?d1)\<lparr>recipes := recipes d @ [?row],
               nextId := Suc (nextId ?d1) + length ?bds\<rparr>"
  from ok have tags_ok: "list_all (\<lambda>t. t_id t < nextId d) (tags d)" "distinct (map t_id (tags d))"
    and recs: "list_all (\<lambda>r. r_id r < nextId d
                       \<and> (list_all (\<lambda>b. b_id b < nextId d) (r_blocks r)
                       \<and> find (\<lambda>u. u_id u = r_ownerId r) (users d) \<noteq> None)) (recipes d)"
    by (simp_all add: db_ok_def)
  note res = upsert_tags_resolves [OF tags_ok, of "in_tags p"]
  note out = post_outcome [OF u owner p, of c]
  have frame: "users ?d1 = users d" "recipes ?d1 = recipes d"
    using upsert_tags_frame [of "in_tags p" d] by simp_all
  from owner obtain own where own: "find (\<lambda>x. u_id x = au_id u) (users d) = Some own" by blast
  have first: "\<exists>i d'. recipes_post c req d = (json_response (IdBody i), d')"
    if "distinct (map (\<lambda>t. (ti_name t, ti_color t)) (in_tags p))"
    using upsert_tags_distinct_ids [OF tags_ok that] by (auto simp: out)
  have second: "\<exists>det d''.
               recipes_get c' (req'\<lparr>param_id := i\<rparr>) d' = (json_response (DetailBody det), d'')
             \<and> dt_id det = i \<and> dt_name det = in_name p \<and> dt_ownerId det = au_id u
             \<and> in_blocks p \<noteq> []
             \<and> map b_order (dt_blocks det) = [0..<length (in_blocks p)]
             \<and> list_all2 block_shows (in_blocks p) (dt_blocks det)"
    if post: "recipes_post c req d = (json_response (IdBody i), d')" for i d'
  proof -
    have ids: "distinct ?ids"
    proof (rule ccontr)
      assume "\<not> distinct ?ids"
      with post show False by (simp add: out error_response_def json_response_def)
    qed
    from post ids have i: "i = nextId ?d1" and d': "d' = ?d2"
      by (auto simp: out json_response_def)
    from res have mono: "nextId d \<le> nextId ?d1" by simp
    have fresh: "find (\<lambda>r. r_id r = nextId ?d1) (recipes d) = None"
      using recs mono by (rule find_fresh_recipe)
    have found: "find (\<lambda>r. r_id r = nextId ?d1) (recipes ?d2) = Some ?row"
      by (simp add: find_append fresh)
    from res obtain rows where
      rows: "list_all2 (\<lambda>j t. find (\<lambda>t. t_id t = j) (tags ?d1) = Some t) ?ids rows"
      by blast
    have joined: "those (map (\<lambda>i. find (\<lambda>t. t_id t = i) (tags ?d2)) ?ids) = Some rows"
      using those_map_Some [OF rows] by simp
    let ?det = "\<lparr>dt_id = nextId ?d1, dt_name = in_name p, dt_ownerId = au_id u,
                 dt_ownerDisplayName = u_displayName own, dt_tags = rows, dt_blocks = ?new\<rparr>"
    have sel: "select_recipe ?d2 None ?row =
        Inr \<lparr>s_id = nextId ?d1, s_name = in_name p, s_ownerId = au_id u,
             s_ownerDisplayName = u_displayName own, s_tags = rows, s_blocks = ?new\<rparr>"
      using own joined by (simp add: select_recipe_def frame new_blocks_in_order)
    have get: "recipes_get c' (req'\<lparr>param_id := i\<rparr>) d'
                 = (json_response (DetailBody ?det), logop RecipeFindUnique ?d2)"
      unfolding i d' using found sel
      by (simp add: recipes_get_def recipe_findUnique_select_def Let_def)
    have "in_blocks p \<noteq> []" using p by (rule recipeUpsertSchema_blocks)
    moreover have "map b_order (dt_blocks ?det) = [0..<length (in_blocks p)]"
      by (simp add: new_blocks_orders)
    moreover have "list_all2 block_shows (in_blocks p) (dt_blocks ?det)"
      by (simp add: new_blocks_show_input)
    moreover have "dt_id ?det = i" "dt_name ?det = in_name p" "dt_ownerId ?det = au_id u"
      by (simp_all add: i)
    ultimately show ?thesis using get by blast
  qed
  from first second show ?thesis by blast
qed


theorem create_then_read_witness:
  "db_ok example_db
   \<and> recipeUpsertSchema recipe_body
       = Some \<lparr>in_name = ''Stew'',
            in_tags = [\<lparr>ti_id = None, ti_name = ''Quick'', ti_color = ''#ff0000''\<rparr>,
                       \<lparr>ti_id = None, ti_name = ''Winter'', ti_color = ''#0000ff''\<rparr>],
            in_blocks = [PhotoIn ''u2'', TextIn ''b'', TextIn ''c'']\<rparr>
   \<and> fst (recipes_post example_ctx (example_request\<lparr>user := Some ann, body := recipe_body\<rparr>)
        example_db) = json_response (IdBody 10)
   \<and> (\<exists>det d''.
         recipes_get example_ctx (example_request\<lparr>param_id := 10\<rparr>)
           (snd (recipes_post example_ctx
              (example_request\<lparr>user := Some ann, body := recipe_body\<rparr>) example_db))
           = (json_response (DetailBody det), d'')
       \<and> dt_id det = 10 \<and> dt_name det = ''Stew'' \<and> dt_ownerId det = 0
       \<and> map b_order (dt_blocks det) = [0, 1, 2]
       \<and> list_all2 block_shows [PhotoIn ''u2'', TextIn ''b'', TextIn ''c''] (dt_blocks det)
       \<and> dt_blocks det =
           [\<lparr>b_id = 11, b_order = 0, b_type = PHOTO, b_text = None, b_photoUrl = Some ''u2''\<rparr>,
            \<lparr>b_id = 12, b_order = 1, b_type = TEXT, b_text = Some ''b'', b_photoUrl = None\<rparr>,
            \<lparr>b_id = 13, b_order = 2, b_type = TEXT, b_text = Some ''c'', b_photoUrl = None\<rparr>])"
proof -
  let ?req = "example_request\<lparr>user := Some ann, body := recipe_body\<rparr>"
  let ?p = "\<lparr>in_name = ''Stew'',
            in_tags = [\<lparr>ti_id = None, ti_name = ''Quick'', ti_color = ''#ff0000''\<rparr>,
                       \<lparr>ti_id = None, ti_name = ''Winter'', ti_color = ''#0000ff''\<rparr>],
            in_blocks = [PhotoIn ''u2'', TextIn ''b'', TextIn ''c'']\<rparr>"
  let ?post = "recipes_post example_ctx ?req example_db"
  let ?blocks =
    "[\<lparr>b_id = 11, b_order = 0, b_type = PHOTO, b_text = None, b_photoUrl = Some ''u2''\<rparr>,
      \<lparr>b_id = 12, b_order = 1, b_type = TEXT, b_text = Some ''b'', b_photoUrl = None\<rparr>,
      \<lparr>b_id = 13, b_order = 2, b_type = TEXT, b_text = Some ''c'', b_photoUrl = None\<rparr>]"
  have ok: "db_ok example_db"
    by (simp add: db_ok_def example_db_def)
  have u: "user ?req = Some ann" by simp
  have owner: "find (\<lambda>x. u_id x = au_id ann) (users example_db) \<noteq> None"
    by (simp add: example_db_def ann_def)
  have parsed: "recipeUpsertSchema recipe_body = Some ?p"
    by (simp add: recipe_body_def)
  then have p: "recipeUpsertSchema (body ?req) = Some ?p" by simp
  have upt: "[0..<length (in_blocks ?p)] = [0, 1, 2]"
    by (simp add: upt_rec)
  have post: "?post =
      (json_response (IdBody 10),
       \<lparr>users = users example_db,
        tags = tags example_db @ [\<lparr>t_id = 9, t_name = ''Winter'', t_color = ''#0000ff''\<rparr>],
        recipes = recipes example_db @
          [\<lparr>r_id = 10, r_name = ''Stew'', r_ownerId = 0, r_updatedAt = 1000,
            r_recipeTags = [3, 9], r_blocks = ?blocks\<rparr>],
        nextId = 14, oplog = [TagUpsert, TagUpsert, RecipeCreate]\<rparr>)"
    by (simp add: recipes_post_def requireAuth_def recipes_post_handler_def recipe_body_def
        tag_upsert_def recipe_create_def blocks_of_input_def new_blocks_def logop_def
        example_request_def example_ctx_def example_db_def ann_def Let_def)
  have get: "dt_blocks (case res_body (fst (recipes_get example_ctx
                 (example_request\<lparr>param_id := 10\<rparr>) (snd ?post))) of DetailBody x \<Rightarrow> x)
             = ?blocks"
    unfolding post
    by (simp add: recipes_get_def recipe_findUnique_select_def select_recipe_def
        json_response_def example_request_def example_db_def Let_def)
  have eq: "?post = (json_response (IdBody 10), snd ?post)"
    using post by simp
  from create_then_read [OF ok u owner p, of example_ctx example_ctx example_request] eq
  obtain det d'' where
    g: "recipes_get example_ctx (example_request\<lparr>param_id := 10\<rparr>) (snd ?post)
           = (json_response (DetailBody det), d'')"
    and props: "dt_id det = 10" "dt_name det = in_name ?p" "dt_ownerId det = au_id ann"
      "map b_order (dt_blocks det) = [0..<length (in_blocks ?p)]"
      "list_all2 block_shows (in_blocks ?p) (dt_blocks det)"
    by blast
  from g get have blocks: "dt_blocks det = ?blocks"
    by (simp add: json_response_def)
  from props have props': "dt_id det = 10" "dt_name det = ''Stew''" "dt_ownerId det = 0"
      "map b_order (dt_blocks det) = [0, 1, 2]"
      "list_all2 block_shows [PhotoIn ''u2'', TextIn ''b'', TextIn ''c''] (dt_blocks det)"
    unfolding upt by (simp_all add: ann_def)
  from eq have first: "fst ?post = json_response (IdBody 10)"
    by (metis fst_conv)
  from ok parsed first g props' blocks show ?thesis
    by (intro conjI exI) assumption+
qed

text \<open>
  A payload that names a tag twice validates, and the store refuses it: both handlers
  answer 500 and no recipe is written or changed.
\<close>

lemma repeated_tag_refused:
  "recipeUpsertSchema repeated_tag_body \<noteq> None
   \<and> fst (recipes_post example_ctx (example_request\<lparr>user := Some ann, body := repeated_tag_body\<rparr>)
        example_db) = error_response 500 ''Server error''
   \<and> recipes (snd (recipes_post example_ctx
        (example_request\<lparr>user := Some ann, body := repeated_tag_body\<rparr>) example_db))
       = recipes example_db
   \<and> fst (recipes_put example_ctx (example_request\<lparr>user := Some ann, body := repeated_tag_body\<rparr>)
        example_db) = error_response 500 ''Server error''
   \<and> recipes (snd (recipes_put example_ctx
        (example_request\<lparr>user := Some ann, body := repeated_tag_body\<rparr>) example_db))
       = recipes example_db"
  by (simp add: recipes_post_def recipes_put_def requireAuth_def recipes_post_handler_def
      recipes_put_handler_def recipe_findUnique_def repeated_tag_body_def tag_upsert_def
      recipe_create_def recipe_update_def logop_def example_request_def example_ctx_def
      example_db_def ann_def Let_def)


section \<open>Listing recipes\<close>

lemma recipes_list_ignores_tagIds:
  "recipes_list c (req\<lparr>query_tagIds := x\<rparr>) d = recipes_list c req d"
  by (simp add: recipes_list_def)

text \<open>
  Claim C1. The list handler does not filter by the required tag identifiers. In the
  example store the recipe 7 (Salad) is associated with the tags 2 and 3 and the
  recipe 4 (Soup) with the tag 2 only; a request with the tag identifiers 2 and 3 and no
  text query is answered with both recipes.
\<close>

theorem list_returns_recipe_missing_a_tag:
  "map r_id (filter (\<lambda>r. set [2, 3] \<subseteq> set (r_recipeTags r)) (recipes example_db)) = [7]
   \<and> fst (recipes_list example_ctx (example_request\<lparr>query_tagIds := Some ''2,3''\<rparr>) example_db)
       = json_response (ListBody
           [\<lparr>it_id = 7, it_name = ''Salad'', it_ownerId = 1, it_ownerDisplayName = ''Bob'',
             it_tags = [\<lparr>t_id = 2, t_name = ''Vegan'', t_color = ''#00ff00''\<rparr>,
                        \<lparr>t_id = 3, t_name = ''Quick'', t_color = ''#ff0000''\<rparr>],
             it_firstPhotoUrl = Some ''u3''\<rparr>,
            \<lparr>it_id = 4, it_name = ''Soup'', it_ownerId = 0, it_ownerDisplayName = ''Ann'',
             it_tags = [\<lparr>t_id = 2, t_name = ''Vegan'', t_color = ''#00ff00''\<rparr>],
             it_firstPhotoUrl = None\<rparr>])"
  by (simp add: recipes_list_def recipe_findMany_def select_recipe_def list_item_def trim_def
      example_request_def example_db_def Let_def)

section \<open>Validation at the boundary\<close>

text \<open>
  Claim C9, as the handlers have it. On register, on login and, for an authenticated
  caller, on create, a payload that fails validation is answered 400 \<^verbatim>\<open>Invalid payload\<close>
  and the store, its log of operations included, is untouched: nothing was queried or
  written. On update the handler first looks the recipe up and checks the permission:
  for an authenticated caller an invalid payload is answered 404 when the recipe is
  missing, 403 when the caller may not edit it and 400 otherwise, and in every case the
  store afterwards differs only by that one lookup in its log.
\<close>

theorem invalid_payload_rejected:
  "(registerSchema (isEmail c) (body req) = None \<longrightarrow>
      auth_register c req d = (error_response 400 ''Invalid payload'', d))
   \<and> (loginSchema (isEmail c) (body req) = None \<longrightarrow>
      auth_login c req d = (error_response 400 ''Invalid payload'', d))
   \<and> (recipeUpsertSchema (body req) = None \<and> user req \<noteq> None \<longrightarrow>
      recipes_post c req d = (error_response 400 ''Invalid payload'', d)
      \<and> recipes_put c req d =
          ((case find (\<lambda>r. r_id r = param_id req) (recipes d) of
              None \<Rightarrow> error_response 404 ''Not found''
            | Some ex \<Rightarrow>
                if canEdit (user req) (r_ownerId ex) then error_response 400 ''Invalid payload''
                else error_response 403 ''Forbidden''),
           d\<lparr>oplog := oplog d @ [RecipeFindUnique]\<rparr>))"
  by (auto simp: auth_register_def auth_login_def recipes_post_def recipes_put_def
      requireAuth_def recipes_post_handler_def recipes_put_handler_def recipe_findUnique_def
      logop_def split: option.splits)

theorem invalid_payload_rejected_witness:
  "body (example_request\<lparr>user := Some ann\<rparr>) = JObj []
   \<and> body (example_request\<lparr>user := Some bob\<rparr>) = JObj []
   \<and> auth_register example_ctx (example_request\<lparr>user := Some ann\<rparr>) example_db
     = (error_response 400 ''Invalid payload'', example_db)
   \<and> auth_login example_ctx (example_request\<lparr>user := Some ann\<rparr>) example_db
     = (error_response 400 ''Invalid payload'', example_db)
   \<and> recipes_post example_ctx (example_request\<lparr>user := Some ann\<rparr>) example_db
     = (error_response 400 ''Invalid payload'', example_db)
   \<and> recipes_put example_ctx (example_request\<lparr>user := Some ann\<rparr>) example_db
     = (error_response 400 ''Invalid payload'', example_db\<lparr>oplog := [RecipeFindUnique]\<rparr>)
   \<and> recipes_put example_ctx (example_request\<lparr>user := Some bob\<rparr>) example_db
     = (error_response 403 ''Forbidden'', example_db\<lparr>oplog := [RecipeFindUnique]\<rparr>)"
proof -
  have b: "body (example_request\<lparr>user := Some w\<rparr>) = JObj []" for w
    by (simp add: example_request_def)
  have r: "registerSchema (isEmail example_ctx) (JObj []) = None"
    and l: "loginSchema (isEmail example_ctx) (JObj []) = None"
    and e: "recipeUpsertSchema (JObj []) = None"
    by simp_all
  have f: "find (\<lambda>r. r_id r = param_id example_request) (recipes example_db)
      = Some \<lparr>r_id = 4, r_name = ''Soup'', r_ownerId = 0, r_updatedAt = 900,
          r_recipeTags = [2],
          r_blocks =
            [\<lparr>b_id = 5, b_order = 0, b_type = TEXT, b_text = Some ''a'', b_photoUrl = None\<rparr>,
             \<lparr>b_id = 6, b_order = 1, b_type = PHOTO, b_text = None,
              b_photoUrl = Some ''u1''\<rparr>]\<rparr>"
    by (simp add: example_request_def example_db_def)
  have lg: "oplog example_db = []" by (simp add: example_db_def)
  show ?thesis
    using invalid_payload_rejected [of example_ctx "example_request\<lparr>user := Some ann\<rparr>" example_db]
      invalid_payload_rejected [of example_ctx "example_request\<lparr>user := Some bob\<rparr>" example_db]
    by (simp add: b r l e f lg ann_def bob_def)
qed

text \<open>
  Claim C9, as stated, fails on update: an authenticated request whose body is the empty
  object, which the body parser hands to the handler and the validation refuses, and
  which names no recipe, is answered 404, not 400, after a query has run.
\<close>

theorem invalid_update_of_missing_recipe:
  "body (example_request\<lparr>param_id := 99, user := Some ann\<rparr>) = JObj []
   \<and> recipeUpsertSchema (body (example_request\<lparr>param_id := 99, user := Some ann\<rparr>)) = None
   \<and> recipes_put example_ctx (example_request\<lparr>param_id := 99, user := Some ann\<rparr>) example_db
       = (error_response 404 ''Not found'', example_db\<lparr>oplog := [RecipeFindUnique]\<rparr>)"
  by (simp add: recipes_put_def requireAuth_def recipes_put_handler_def recipe_findUnique_def
      logop_def example_request_def example_db_def)

end
